theory Spec2Isabelle
  imports Complex_Main
begin

section \<open>JavaScript numbers and Date objects\<close>

text \<open>
  A JavaScript number is modelled as an exact real, or \<open>None\<close> for NaN. A Date object
  holds an integral time value in milliseconds, or NaN (an Invalid Date): \<open>None\<close>.
  Every comparison with NaN is false, every arithmetic operation on NaN gives NaN.
  Rounding of doubles and the range limit of time values are outside the model.
\<close>

type_synonym num = "real option"
type_synonym date = "int option"

fun jsAdd :: "num \<Rightarrow> num \<Rightarrow> num" where
  "jsAdd (Some a) (Some b) = Some (a + b)"
| "jsAdd _ _ = None"

fun jsSub :: "num \<Rightarrow> num \<Rightarrow> num" where
  "jsSub (Some a) (Some b) = Some (a - b)"
| "jsSub _ _ = None"

fun jsMul :: "num \<Rightarrow> num \<Rightarrow> num" where
  "jsMul (Some a) (Some b) = Some (a * b)"
| "jsMul _ _ = None"

fun jsLt :: "num \<Rightarrow> num \<Rightarrow> bool" where
  "jsLt (Some a) (Some b) = (a < b)"
| "jsLt _ _ = False"

fun jsLe :: "num \<Rightarrow> num \<Rightarrow> bool" where
  "jsLe (Some a) (Some b) = (a \<le> b)"
| "jsLe _ _ = False"

text \<open>
  Division: a zero divisor gives NaN here. (JavaScript gives an infinity or NaN; the
  program only passes such a quotient on to \<open>new Date\<close>, which turns all three into an
  Invalid Date.)
\<close>

fun jsDiv :: "num \<Rightarrow> num \<Rightarrow> num" where
  "jsDiv (Some a) (Some b) = (if b = 0 then None else Some (a / b))"
| "jsDiv _ _ = None"

fun jsEq :: "num \<Rightarrow> num \<Rightarrow> bool" where
  "jsEq (Some a) (Some b) = (a = b)"
| "jsEq _ _ = False"

definition jsAbs :: "num \<Rightarrow> num" where
  "jsAbs a = map_option abs a"

definition jsGt :: "num \<Rightarrow> num \<Rightarrow> bool" where
  "jsGt a b = jsLt b a"

definition jsGe :: "num \<Rightarrow> num \<Rightarrow> bool" where
  "jsGe a b = jsLe b a"

text \<open>\<open>+d\<close> on a Date: its time value as a number.\<close>

definition toNumber :: "date \<Rightarrow> num" where
  "toNumber d = map_option real_of_int d"

text \<open>\<open>new Date(v)\<close> on a number: the time value is \<open>v\<close> truncated towards zero.\<close>

definition trunc :: "real \<Rightarrow> int" where
  "trunc x = (if 0 \<le> x then \<lfloor>x\<rfloor> else \<lceil>x\<rceil>)"

definition newDate :: "num \<Rightarrow> date" where
  "newDate v = map_option trunc v"

section \<open>The clamped time window\<close>

text \<open>
  \<open>const MIN_SPAN_MS = 1000 * 60 * 60 * 24 * 30\<close>: the timeline never gets narrower than
  about 30 days.
\<close>

definition MIN_SPAN_MS :: real where
  "MIN_SPAN_MS = 1000 * 60 * 60 * 24 * 30"

text \<open>
  The bounds handed to \<open>clampDomain\<close> are JavaScript values: every caller passes the two
  entries of an extent, which are Date objects (or \<open>undefined\<close> for an empty record set);
  a caller could also pass plain numbers. The function uses a bound \<open>v\<close> in three ways:
  \<^item> \<open>+v\<close> (\<open>valueOf\<close>), which is numeric for both kinds;
  \<^item> \<open>new Date(v)\<close> (\<open>newDateOf\<close>), a copy of a Date or the Date of a number;
  \<^item> \<open>new Date(v + n)\<close> (\<open>newDatePlus\<close>): for a number \<open>v\<close> this is the Date of the sum.
    For a Date \<open>v\<close> the operator \<open>+\<close> concatenates the text of the Date and the text of
    the number \<open>n\<close>, and \<open>new Date\<close> parses that string. The result of parsing such a
    string depends on the engine; it is the parameter \<open>parse\<close> of the model.
  \<open>new Date(v - n)\<close> is numeric for both kinds, since \<open>-\<close> converts to numbers.
  \<open>undefined\<close> converts to NaN in all three.
\<close>

datatype jsval = Number num | DateObj date | Undefined

fun valueOf :: "jsval \<Rightarrow> num" where
  "valueOf (Number n) = n"
| "valueOf (DateObj d) = toNumber d"
| "valueOf Undefined = None"

fun newDateOf :: "jsval \<Rightarrow> date" where
  "newDateOf (Number n) = newDate n"
| "newDateOf (DateObj d) = d"
| "newDateOf Undefined = None"

fun newDatePlus :: "(date \<Rightarrow> num \<Rightarrow> date) \<Rightarrow> jsval \<Rightarrow> num \<Rightarrow> date" where
  "newDatePlus parse (Number m) n = newDate (jsAdd m n)"
| "newDatePlus parse (DateObj d) n = parse d n"
| "newDatePlus parse Undefined n = None"

text \<open>
  \<open>clampDomain([start, end], [min, max])\<close>, block by block. First the test
  \<open>span >= maxSpan\<close>, then "keep inside the bounds while preserving the span":
\<close>

definition keepInside ::
  "(date \<Rightarrow> num \<Rightarrow> date) \<Rightarrow> date \<times> date \<Rightarrow> jsval \<times> jsval \<Rightarrow> num \<Rightarrow> date \<times> date" where
  "keepInside parse se mm spanv =
     (case se of (start, endd) \<Rightarrow> case mm of (minv, maxv) \<Rightarrow>
        let (start, endd) =
              (if jsLt (toNumber start) (valueOf minv)
               then (newDateOf minv, newDatePlus parse minv spanv)
               else (start, endd))
        in if jsGt (toNumber endd) (valueOf maxv)
           then (newDate (jsSub (valueOf maxv) spanv), newDateOf maxv)
           else (start, endd))"

text \<open>The safety swap: \<open>if (+end < +start) [start, end] = [end, start]\<close>.\<close>

definition safetySwap :: "date \<times> date \<Rightarrow> date \<times> date" where
  "safetySwap se =
     (case se of (start, endd) \<Rightarrow>
        if jsLt (toNumber endd) (toNumber start) then (endd, start) else (start, endd))"

text \<open>
  The minimum zoom window: a window shorter than \<open>MIN_SPAN_MS\<close> is replaced by the
  window of that length around its midpoint, which is then clamped to the data set again.
\<close>

definition enforceMinimum ::
  "(date \<Rightarrow> num \<Rightarrow> date) \<Rightarrow> date \<times> date \<Rightarrow> jsval \<times> jsval \<Rightarrow> date \<times> date" where
  "enforceMinimum parse se mm =
     (case se of (start, endd) \<Rightarrow> case mm of (minv, maxv) \<Rightarrow>
        if jsLt (jsSub (toNumber endd) (toNumber start)) (Some MIN_SPAN_MS)
        then
          let mid = jsDiv (jsAdd (toNumber start) (toNumber endd)) (Some 2);
              start = newDate (jsSub mid (jsDiv (Some MIN_SPAN_MS) (Some 2)));
              endd = newDate (jsAdd mid (jsDiv (Some MIN_SPAN_MS) (Some 2)));
              (start, endd) =
                (if jsLt (toNumber start) (valueOf minv)
                 then (newDateOf minv, newDatePlus parse minv (Some MIN_SPAN_MS))
                 else (start, endd))
          in if jsGt (toNumber endd) (valueOf maxv)
             then (newDate (jsSub (valueOf maxv) (Some MIN_SPAN_MS)), newDateOf maxv)
             else (start, endd)
        else (start, endd))"

definition clampDomain ::
  "(date \<Rightarrow> num \<Rightarrow> date) \<Rightarrow> date \<times> date \<Rightarrow> jsval \<times> jsval \<Rightarrow> date \<times> date" where
  "clampDomain parse se mm =
     (case se of (start, endd) \<Rightarrow> case mm of (minv, maxv) \<Rightarrow>
        let spanv = jsSub (toNumber endd) (toNumber start);
            maxSpan = jsSub (valueOf maxv) (valueOf minv)
        in if jsGe spanv maxSpan then (newDateOf minv, newDateOf maxv)
           else enforceMinimum parse (safetySwap (keepInside parse se mm spanv)) mm)"

text \<open>
  A time in whole milliseconds handed over as a bound, in either of the two forms.
\<close>

definition isTime :: "jsval \<Rightarrow> int \<Rightarrow> bool" where
  "isTime v t \<longleftrightarrow> v = DateObj (Some t) \<or> v = Number (Some (real_of_int t))"

text \<open>
  An engine that reads the text of a Date followed by the digits of a number back as that
  Date, dropping the digits. This is what V8 does with the texts that arise below, where
  the Date is at a whole second; the text of an Invalid Date gives an Invalid Date.
\<close>

definition parseBack :: "date \<Rightarrow> num \<Rightarrow> date" where
  "parseBack d n = d"

section \<open>Records and module state\<close>

text \<open>
  A row as the CSV loader builds it (rows whose date does not parse are dropped, so
  \<open>date\<close> is a valid time value), together with the fields the layout adds to the same
  object: \<open>nodeX\<close>, \<open>nodeY\<close> are the \<open>x\<close>, \<open>y\<close> written by the force simulation,
  \<open>ySim\<close> and \<open>xOffset\<close> the caches of the chart (\<open>None\<close>: not yet set).
  A string is the list of its code units. The field \<open>notes\<close> is called \<open>notesText\<close> here.
\<close>

record row =
  date :: int
  event :: string
  notesText :: string
  displaySource :: string
  categories :: "string list"
  validTopics :: "string list"
  keyEvent :: bool
  nodeX :: num
  nodeY :: num
  ySim :: "num option"
  xOffset :: "real option"

record state =
  rawData :: "row list"
  filteredData :: "row list"
  keyEvents :: "row list"
  currentXScale :: "(date \<times> date) option"
  FULL_EXTENT :: "(jsval \<times> jsval) option"
  didInitialFit :: bool
  selectedCats :: "string set"

text \<open>
  \<open>currentXScale\<close> is the time scale of the chart, held here as its domain (the two Dates
  that \<open>x.domain()\<close> returns); \<open>None\<close> before the first chart is drawn.
  \<open>didInitialFit\<close> is \<open>drawChart._didInitialFit\<close>.

  \<open>d3.extent(rows, d => d.date)\<close>: the least and the greatest date, \<open>undefined\<close> twice
  for no rows.
\<close>

fun d3_extent :: "row list \<Rightarrow> jsval \<times> jsval" where
  "d3_extent [] = (Undefined, Undefined)"
| "d3_extent (r # rs) =
     (DateObj (Some (fold min (map date rs) (date r))),
      DateObj (Some (fold max (map date rs) (date r))))"

text \<open>Setting the domain of a time scale converts each entry by \<open>new Date(+v)\<close>.\<close>

definition domainOf :: "jsval \<times> jsval \<Rightarrow> date \<times> date" where
  "domainOf ex = (newDate (valueOf (fst ex)), newDate (valueOf (snd ex)))"

text \<open>
  The load callback: \<open>rawData = data.filter(Boolean); FULL_EXTENT = d3.extent(rawData, ...)\<close>.
  Nothing else assigns \<open>FULL_EXTENT\<close>.
\<close>

definition loadData :: "row list \<Rightarrow> state \<Rightarrow> state" where
  "loadData rows st = st\<lparr>rawData := rows, FULL_EXTENT := Some (d3_extent rows)\<rparr>"

text \<open>
  The extent the wheel, drag and button handlers clamp against,
  \<open>FULL_EXTENT || d3.extent(filteredData, d => d.date)\<close>, and the one of the touch handlers,
  \<open>FULL_EXTENT || d3.extent(rawData, d => d.date)\<close>.
\<close>

definition clampExtent :: "state \<Rightarrow> jsval \<times> jsval" where
  "clampExtent st = (case FULL_EXTENT st of Some ex \<Rightarrow> ex | None \<Rightarrow> d3_extent (filteredData st))"

definition touchExtent :: "state \<Rightarrow> jsval \<times> jsval" where
  "touchExtent st = (case FULL_EXTENT st of Some ex \<Rightarrow> ex | None \<Rightarrow> d3_extent (rawData st))"

text \<open>
  What the part of \<open>drawChart(data)\<close> that builds the scale does to the state: nothing for
  no data; otherwise a new scale over the extent of \<open>data\<close>, which the first drawing
  (and only the first) then stretches to \<open>FULL_EXTENT\<close>.
\<close>

definition drawChart :: "state \<Rightarrow> row list \<Rightarrow> state" where
  "drawChart st data =
     (if data = [] then st
      else
        let st1 = st\<lparr>currentXScale := Some (domainOf (d3_extent data))\<rparr>
        in case FULL_EXTENT st1 of
             Some ex \<Rightarrow>
               if \<not> didInitialFit st1
               then st1\<lparr>currentXScale := Some (domainOf ex), didInitialFit := True\<rparr>
               else st1
           | None \<Rightarrow> st1)"

section \<open>Gestures\<close>

text \<open>
  Every handler ends by calling \<open>setDomainAndRedraw(..., start, end, {repack})\<close> or returns
  before. A handler is modelled by the arguments of that call, \<open>None\<close> for a return
  without a call (also when no chart has been drawn, so that the handler is not bound).
  \<open>applyCall\<close> is the effect of the call on the domain of the scale.
\<close>

type_synonym redrawCall = "(date \<times> date \<times> bool) option"

definition applyCall :: "state \<Rightarrow> redrawCall \<Rightarrow> state" where
  "applyCall st call =
     (case call of None \<Rightarrow> st
      | Some (start, endd, repack) \<Rightarrow> st\<lparr>currentXScale := Some (start, endd)\<rparr>)"

text \<open>
  \<open>zoomBy(factor, anchorDate)\<close>, the handler of the zoom buttons (\<open>zoomBy(1.25)\<close>,
  \<open>zoomBy(0.8)\<close>); \<open>anchorDate\<close> is \<open>None\<close> when the argument is omitted.
\<close>

definition zoomWindow :: "state \<Rightarrow> date \<times> date \<Rightarrow> num \<Rightarrow> date option \<Rightarrow> date \<times> date" where
  "zoomWindow st domn factor anchorDate =
     (case domn of (d0, d1) \<Rightarrow>
        let center = (case anchorDate of
                        Some a \<Rightarrow> toNumber a
                      | None \<Rightarrow> jsDiv (jsAdd (toNumber d0) (toNumber d1)) (Some 2));
            spanv = jsDiv (jsSub (toNumber d1) (toNumber d0)) factor;
            newStart = newDate (jsSub center (jsDiv spanv (Some 2)));
            newEnd = newDate (jsAdd center (jsDiv spanv (Some 2)));
            extent = clampExtent st;
            minv = valueOf (fst extent);
            maxv = valueOf (snd extent);
            maxSpan = jsSub maxv minv;
            (newStart, newEnd) =
              (if jsGt (jsSub (toNumber newEnd) (toNumber newStart)) maxSpan
               then (newDate minv, newDate maxv) else (newStart, newEnd));
            (newStart, newEnd) =
              (if jsLt (toNumber newStart) minv
               then (newDate minv, newDate (jsAdd minv spanv)) else (newStart, newEnd));
            (newStart, newEnd) =
              (if jsGt (toNumber newEnd) maxv
               then (newDate (jsSub maxv spanv), newDate maxv) else (newStart, newEnd))
        in (newStart, newEnd))"

definition zoomBy :: "state \<Rightarrow> num \<Rightarrow> date option \<Rightarrow> redrawCall" where
  "zoomBy st factor anchorDate =
     (case currentXScale st of
        None \<Rightarrow> None
      | Some domn \<Rightarrow>
          if filteredData st = [] then None
          else
            let (newStart, newEnd) = zoomWindow st domn factor anchorDate;
                minZoomSpan = MIN_SPAN_MS
            in if jsLt (jsSub (toNumber newEnd) (toNumber newStart)) (Some minZoomSpan)
               then None
               else Some (newStart, newEnd, True))"

text \<open>
  The wheel handler. \<open>mouseX\<close> is the pointer position and \<open>invert\<close> the inverse of the
  current scale (\<open>x.invert\<close>, part of the scale library): the Date under a pixel.
\<close>

definition wheelFactor :: "real \<Rightarrow> real" where
  "wheelFactor deltaY = (if deltaY > 0 then 1.1 else 0.9)"

text \<open>The two numbers the handler turns into \<open>newStart\<close> and \<open>newEnd\<close>.\<close>

definition wheelProposal :: "num \<Rightarrow> num \<Rightarrow> num \<Rightarrow> real \<Rightarrow> num \<times> num" where
  "wheelProposal a d0 d1 deltaY =
     (let factor = wheelFactor deltaY;
          k = max 0.0001 (min 1000 factor)
      in (jsSub a (jsMul (jsSub a d0) (Some k)), jsAdd a (jsMul (jsSub d1 a) (Some k))))"

definition wheel ::
  "(date \<Rightarrow> num \<Rightarrow> date) \<Rightarrow> (date \<times> date \<Rightarrow> real \<Rightarrow> date) \<Rightarrow> state \<Rightarrow> real \<Rightarrow> real \<Rightarrow> redrawCall" where
  "wheel parse invert st mouseX deltaY =
     (case currentXScale st of
        None \<Rightarrow> None
      | Some domn \<Rightarrow>
          let anchorDate = invert domn mouseX;
              d0 = toNumber (fst domn);
              d1 = toNumber (snd domn);
              extent = clampExtent st;
              minv = valueOf (fst extent);
              maxv = valueOf (snd extent);
              a = toNumber anchorDate;
              (p, q) = wheelProposal a d0 d1 deltaY;
              newStart = newDate p;
              newEnd = newDate q;
              (start2, end2) = clampDomain parse (newStart, newEnd) extent
          in if jsLe (jsSub (toNumber end2) (toNumber start2)) (Some MIN_SPAN_MS) then None
             else
               let atFullExtent = (jsEq d0 minv \<and> jsEq d1 maxv);
                   wantFullExtent = (jsEq (toNumber start2) minv \<and> jsEq (toNumber end2) maxv)
               in if atFullExtent \<and> wantFullExtent \<and> deltaY > 0 then None
                  else
                    let oldSpan = jsSub d1 d0;
                        newSpan = jsSub (toNumber end2) (toNumber start2);
                        repack = jsGt (jsAbs (jsSub newSpan oldSpan)) (Some 5)
                    in Some (start2, end2, repack))"

text \<open>
  Panning: the drag handler (\<open>dxPx\<close> is the pixel delta since the last event) and the
  one-finger touch handler, which differ in the extent they clamp against.
\<close>

definition panWindow ::
  "(date \<Rightarrow> num \<Rightarrow> date) \<Rightarrow> (date \<times> date \<Rightarrow> real \<Rightarrow> date) \<Rightarrow> date \<times> date \<Rightarrow> jsval \<times> jsval \<Rightarrow> real \<Rightarrow> date \<times> date" where
  "panWindow parse invert domn extent dxPx =
     (let dt = jsSub (toNumber (invert domn 0)) (toNumber (invert domn dxPx));
          s0 = toNumber (fst domn);
          e0 = toNumber (snd domn);
          newStart = newDate (jsAdd s0 dt);
          newEnd = newDate (jsAdd e0 dt)
      in clampDomain parse (newStart, newEnd) extent)"

definition dragPan ::
  "(date \<Rightarrow> num \<Rightarrow> date) \<Rightarrow> (date \<times> date \<Rightarrow> real \<Rightarrow> date) \<Rightarrow> state \<Rightarrow> real \<Rightarrow> redrawCall" where
  "dragPan parse invert st dxPx =
     (case currentXScale st of
        None \<Rightarrow> None
      | Some domn \<Rightarrow>
          let (newStart, newEnd) = panWindow parse invert domn (clampExtent st) dxPx
          in Some (newStart, newEnd, False))"

definition touchPan ::
  "(date \<Rightarrow> num \<Rightarrow> date) \<Rightarrow> (date \<times> date \<Rightarrow> real \<Rightarrow> date) \<Rightarrow> state \<Rightarrow> real \<Rightarrow> redrawCall" where
  "touchPan parse invert st dxPx =
     (case currentXScale st of
        None \<Rightarrow> None
      | Some domn \<Rightarrow>
          let (newStart, newEnd) = panWindow parse invert domn (touchExtent st) dxPx
          in Some (newStart, newEnd, False))"

text \<open>
  The two-finger pinch: \<open>baseDomain\<close> is the domain at the start of the gesture,
  \<open>pinchStartDist\<close> and \<open>dist\<close> the distances of the fingers then and now, \<open>localX\<close> the
  pixel midway between them.
\<close>

definition pinchZoom ::
  "(date \<Rightarrow> num \<Rightarrow> date) \<Rightarrow> (date \<times> date \<Rightarrow> real \<Rightarrow> date) \<Rightarrow> state \<Rightarrow> num \<times> num \<Rightarrow> real \<Rightarrow> real \<Rightarrow> real \<Rightarrow> redrawCall" where
  "pinchZoom parse invert st baseDomain pinchStartDist distv localX =
     (case currentXScale st of
        None \<Rightarrow> None
      | Some domn \<Rightarrow>
          if pinchStartDist = 0 \<or> distv \<le> 0 then None
          else
            let k = pinchStartDist / distv;
                d0 = fst baseDomain;
                d1 = snd baseDomain;
                a = toNumber (invert domn localX);
                newStart = newDate (jsSub a (jsMul (jsSub a d0) (Some k)));
                newEnd = newDate (jsAdd a (jsMul (jsSub d1 a) (Some k)));
                (newStart, newEnd) = clampDomain parse (newStart, newEnd) (touchExtent st);
                repack = jsGt (jsAbs (jsSub (jsSub (toNumber newEnd) (toNumber newStart))
                                            (jsSub d1 d0))) (Some 5)
            in Some (newStart, newEnd, repack))"

section \<open>Redrawing: cached offsets\<close>

text \<open>
  The scale and the force simulation belong to the charting library. A scale is a function
  from a time value to a pixel (NaN for a degenerate domain); \<open>scale\<close> below gives the scale
  for a domain (the range is fixed by the chart width). \<open>simulate x data\<close> stands for the
  150 ticks of the force simulation that pulls each node to \<open>x(d.date)\<close>: it returns the
  nodes with their new \<open>nodeX\<close>, \<open>nodeY\<close>.

  After a simulation the chart caches, per node, the simulated \<open>y\<close> and the horizontal
  offset from the ideal position, \<open>d.xOffset = (d.x - x(d.date)) || 0\<close>.
\<close>

definition cacheOffsets :: "(int \<Rightarrow> num) \<Rightarrow> row list \<Rightarrow> row list" where
  "cacheOffsets xs data =
     map (\<lambda>d. d\<lparr>ySim := Some (nodeY d),
                 xOffset := Some (case jsSub (nodeX d) (xs (date d)) of
                                    None \<Rightarrow> 0 | Some v \<Rightarrow> v)\<rparr>) data"

text \<open>
  The attributes of a circle: \<open>cx = x(d.date) + (d.xOffset || 0)\<close> and
  \<open>cy = d.ySim ?? d.y\<close>.
\<close>

definition circleAt :: "(int \<Rightarrow> num) \<Rightarrow> row \<Rightarrow> num \<times> num" where
  "circleAt xs d =
     (jsAdd (xs (date d)) (Some (case xOffset d of None \<Rightarrow> 0 | Some v \<Rightarrow> v)),
      (case ySim d of None \<Rightarrow> nodeY d | Some v \<Rightarrow> v))"

text \<open>The packing step of \<open>drawChart\<close>: simulate, cache, draw the circles.\<close>

definition packDots ::
  "(date \<times> date \<Rightarrow> int \<Rightarrow> num) \<Rightarrow> ((int \<Rightarrow> num) \<Rightarrow> row list \<Rightarrow> row list) \<Rightarrow>
     date \<times> date \<Rightarrow> row list \<Rightarrow> row list \<times> (num \<times> num) list" where
  "packDots scale simulate domn data =
     (let xs = scale domn;
          data = cacheOffsets xs (simulate xs data)
      in (data, map (circleAt xs) data))"

section \<open>Stacking the labels of key events\<close>

text \<open>
  \<open>placedLabels\<close> holds, per label placed so far, its horizontal extent widened by
  \<open>labelPadding\<close> on both sides, and its row.
\<close>

record label =
  x1 :: real
  x2 :: real
  level :: nat

definition labelPadding :: real where
  "labelPadding = 4"

text \<open>The one-character string appended to a title cut at 50 characters.\<close>

definition ellipsis :: string where
  "ellipsis = [CHR 0x85]"

definition labelText :: "row \<Rightarrow> string" where
  "labelText d = (if length (event d) > 50 then take 50 (event d) @ ellipsis else event d)"

text \<open>
  The test of the \<open>while\<close> loop: some placed label \<open>l\<close> with
  \<open>!(labelX2 < l.x1 || labelX1 > l.x2 || level !== l.level)\<close>.
\<close>

definition collides :: "label list \<Rightarrow> real \<Rightarrow> real \<Rightarrow> nat \<Rightarrow> bool" where
  "collides placed labelX1 labelX2 lev =
     list_ex (\<lambda>l. \<not> (labelX2 < x1 l \<or> labelX1 > x2 l \<or> lev \<noteq> level l)) placed"

text \<open>\<open>let level = 0; while (...) level++;\<close> started at \<open>lev\<close>.\<close>

function findLevel :: "label list \<Rightarrow> real \<Rightarrow> real \<Rightarrow> nat \<Rightarrow> nat" where
  "findLevel placed labelX1 labelX2 lev =
     (if collides placed labelX1 labelX2 lev
      then findLevel placed labelX1 labelX2 (Suc lev) else lev)"
  by pat_completeness auto
termination
proof (relation "measure (\<lambda>(placed, a, b, lev). length (filter (\<lambda>l. lev \<le> level l) placed))")
  show "wf (measure (\<lambda>(placed, a, b, lev). length (filter (\<lambda>l. lev \<le> level l) placed)))"
    by simp
next
  fix placed :: "label list" and a b :: real and lev :: nat
  assume hit: "collides placed a b lev"
  have le: "length (filter (\<lambda>l. Suc lev \<le> level l) ls) \<le> length (filter (\<lambda>l. lev \<le> level l) ls)"
    for ls :: "label list"
    by (induction ls) auto
  have "collides ls a b lev \<Longrightarrow>
        length (filter (\<lambda>l. Suc lev \<le> level l) ls) < length (filter (\<lambda>l. lev \<le> level l) ls)"
    for ls :: "label list"
  proof (induction ls)
    case Nil
    then show ?case by (simp add: collides_def)
  next
    case (Cons l ls)
    show ?case
    proof (cases "level l = lev")
      case True
      then show ?thesis using le [of ls] by simp
    next
      case False
      with Cons.prems have "collides ls a b lev" by (auto simp: collides_def)
      then show ?thesis using Cons.IH by auto
    qed
  qed
  with hit show "((placed, a, b, Suc lev), (placed, a, b, lev))
      \<in> measure (\<lambda>(placed, a, b, lev). length (filter (\<lambda>l. lev \<le> level l) placed))"
    by simp
qed

declare findLevel.simps [simp del]

text \<open>
  One round of the \<open>forEach\<close>: a key event whose position is NaN is skipped, any other
  gets the first free row and is pushed with its padded extent.
\<close>

definition placeLabel :: "(int \<Rightarrow> num) \<Rightarrow> label list \<Rightarrow> row \<Rightarrow> label list" where
  "placeLabel xs placed d =
     (case xs (date d) of
        None \<Rightarrow> placed
      | Some xPos \<Rightarrow>
          let labelWidth = real (length (labelText d)) * 7;
              labelX1 = xPos - labelWidth / 2;
              labelX2 = xPos + labelWidth / 2;
              lev = findLevel placed labelX1 labelX2 0
          in placed @ [\<lparr>x1 = labelX1 - labelPadding, x2 = labelX2 + labelPadding, level = lev\<rparr>])"

text \<open>
  \<open>drawAnnotations\<close>: the key events, sorted by date (the sort is stable), are placed one
  after the other, starting from no placed labels.
\<close>

definition drawAnnotations :: "(int \<Rightarrow> num) \<Rightarrow> row list \<Rightarrow> label list" where
  "drawAnnotations xs keyEvs = foldl (placeLabel xs) [] (sort_key date keyEvs)"

text \<open>
  \<open>setDomainAndRedraw(x, ..., data, start, end, {repack})\<close>: the domain is set; with
  \<open>repack\<close> the simulation runs again and the caches are refreshed; the circles are always
  moved to scale position plus cached offset; the annotations are laid out again.
\<close>

record redraw =
  newDomain :: "date \<times> date"
  nodes :: "row list"
  circles :: "(num \<times> num) list"
  placedLabels :: "label list"

definition setDomainAndRedraw ::
  "(date \<times> date \<Rightarrow> int \<Rightarrow> num) \<Rightarrow> ((int \<Rightarrow> num) \<Rightarrow> row list \<Rightarrow> row list) \<Rightarrow>
     row list \<Rightarrow> row list \<Rightarrow> date \<Rightarrow> date \<Rightarrow> bool \<Rightarrow> redraw" where
  "setDomainAndRedraw scale simulate keyEvs data start endd repack =
     (let xs = scale (start, endd);
          data = (if repack then cacheOffsets xs (simulate xs data) else data)
      in \<lparr>newDomain = (start, endd),
          nodes = data,
          circles = map (circleAt xs) data,
          placedLabels = drawAnnotations xs keyEvs\<rparr>)"

section \<open>The filter\<close>

text \<open>
  What \<open>updateChart\<close> reads from the page. A dropdown is the list of its
  \<open>.dropdown-option\<close> elements in document order, each with its \<open>data-value\<close> and whether
  it carries the class \<open>on\<close>, and, for the topic dropdown, the \<open>__valueLookup\<close> map from
  labels to topic tokens. A dropdown that is missing from the page is \<open>None\<close>.
\<close>

record dropdown =
  options :: "(string \<times> bool) list"
  valueLookup :: "(string \<Rightarrow> string option) option"

record controls =
  topicDropdown :: "dropdown option"
  sourceDropdown :: "dropdown option"
  keyEventFilter :: bool
  search :: string

definition getSelectedValues :: "dropdown option \<Rightarrow> string list" where
  "getSelectedValues dropdownEl =
     (case dropdownEl of None \<Rightarrow> [] | Some el \<Rightarrow> map fst (filter snd (options el)))"


text \<open>\<open>Array.from(new Set(xs))\<close>: the first occurrence of each element, in order.\<close>

fun dedupe :: "'a list \<Rightarrow> 'a list" where
  "dedupe [] = []"
| "dedupe (v # vs) = v # dedupe (filter (\<lambda>w. w \<noteq> v) vs)"

text \<open>\<open>s.includes(t)\<close>: \<open>t\<close> occurs in \<open>s\<close> as a contiguous piece.\<close>

fun startsWith :: "string \<Rightarrow> string \<Rightarrow> bool" where
  "startsWith s [] = True"
| "startsWith [] (c # t) = False"
| "startsWith (b # s) (c # t) = (b = c \<and> startsWith s t)"

fun jsIncludes :: "string \<Rightarrow> string \<Rightarrow> bool" where
  "jsIncludes [] t = (t = [])"
| "jsIncludes (c # s) t = (startsWith (c # s) t \<or> jsIncludes s t)"

definition categoryKeys :: "string list" where
  "categoryKeys = [''biological'', ''chemical'', ''multi'']"

text \<open>
  The body of the callback of \<open>rawData.filter\<close>, with the values \<open>updateChart\<close>
  computed before it as arguments. \<open>toLowerCase\<close> is the string method of that name.
\<close>

definition rowMatch ::
  "(string \<Rightarrow> string) \<Rightarrow> string set \<Rightarrow> string list \<Rightarrow> bool \<Rightarrow> string list \<Rightarrow> bool \<Rightarrow>
     bool \<Rightarrow> string list \<Rightarrow> bool \<Rightarrow> bool \<Rightarrow> string \<Rightarrow> row \<Rightarrow> bool" where
  "rowMatch toLowerCase selCats activeCats useTopicFilter selectedTopics isAllTopicsSelected
       useSourceFilter selectedSources isAllSourcesSelected onlyKeyEvents searchTerm d =
     (let isMulti = (length (categories d) > 1);
          catMatch = (if activeCats \<noteq> []
                      then (if isMulti then ''multi'' \<in> set activeCats
                            else list_ex (\<lambda>c. c \<in> set activeCats) (categories d))
                      else False);
          keyOk = (''key'' \<in> selCats \<or> \<not> keyEvent d);
          topicMatch = (if useTopicFilter
                        then (if selectedTopics = [] then False
                              else if \<not> isAllTopicsSelected
                              then (let evTopics = validTopics d
                                    in evTopics \<noteq> [] \<and>
                                       list_ex (\<lambda>t. t \<in> set selectedTopics) evTopics)
                              else True)
                        else True);
          sourceMatch = (if useSourceFilter
                         then (if selectedSources = [] then False
                               else if \<not> isAllSourcesSelected
                               then displaySource d \<noteq> [] \<and> displaySource d \<in> set selectedSources
                               else True)
                         else True);
          keyMatch = (\<not> onlyKeyEvents \<or> keyEvent d);
          s = searchTerm;
          searchMatch = (s = [] \<or>
                         (event d \<noteq> [] \<and> jsIncludes (toLowerCase (event d)) s) \<or>
                         (notesText d \<noteq> [] \<and> jsIncludes (toLowerCase (notesText d)) s))
      in catMatch \<and> keyOk \<and> topicMatch \<and> sourceMatch \<and> keyMatch \<and> searchMatch)"

text \<open>
  The topics selected in the dropdown: the labels that are on, mapped to topic tokens
  through the lookup (a label without an entry stands for itself), empty tokens
  dropped, duplicates removed.
\<close>

definition readSelectedTopics :: "dropdown option \<Rightarrow> string list" where
  "readSelectedTopics topicDd =
     (let topicLabels = getSelectedValues topicDd;
          selectedTopics =
            (case topicDd of
               None \<Rightarrow> topicLabels
             | Some el \<Rightarrow>
                 (case valueLookup el of
                    None \<Rightarrow> topicLabels
                  | Some lookup \<Rightarrow>
                      filter (\<lambda>v. v \<noteq> [])
                        (map (\<lambda>lab. case lookup lab of Some v \<Rightarrow> v | None \<Rightarrow> lab) topicLabels)))
      in dedupe selectedTopics)"

definition optionCount :: "dropdown option \<Rightarrow> nat" where
  "optionCount dropdownEl = (case dropdownEl of None \<Rightarrow> 0 | Some el \<Rightarrow> length (options el))"

text \<open>
  \<open>updateChart\<close>: the filtered rows and the key events among them are stored, and the
  chart is drawn from the filtered rows. \<open>trim\<close> and \<open>toLowerCase\<close> are the string methods.
\<close>

definition updateChart ::
  "(string \<Rightarrow> string) \<Rightarrow> (string \<Rightarrow> string) \<Rightarrow> controls \<Rightarrow> state \<Rightarrow> state" where
  "updateChart toLowerCase trim ui st =
     (let selectedTopics = readSelectedTopics (topicDropdown ui);
          selectedSources = getSelectedValues (sourceDropdown ui);
          allTopics = dedupe (filter (\<lambda>v. v \<noteq> []) (concat (map validTopics (rawData st))));
          allSources = dedupe (filter (\<lambda>v. v \<noteq> []) (map displaySource (rawData st)));
          topicListCount = optionCount (topicDropdown ui);
          sourceListCount = optionCount (sourceDropdown ui);
          useTopicFilter = (topicListCount > 0);
          useSourceFilter = (sourceListCount > 0);
          selectedTopics = (if \<not> useTopicFilter then allTopics else selectedTopics);
          selectedSources = (if \<not> useSourceFilter then allSources else selectedSources);
          onlyKeyEvents = keyEventFilter ui;
          searchTerm = toLowerCase (trim (search ui));
          activeCats = filter (\<lambda>k. k \<in> selectedCats st) categoryKeys
      in if activeCats = [] \<and> ''key'' \<notin> selectedCats st
         then drawChart (st\<lparr>filteredData := [], keyEvents := []\<rparr>) []
         else
           let isAllTopicsSelected =
                 (if useTopicFilter then length selectedTopics = topicListCount else True);
               isAllSourcesSelected =
                 (if useSourceFilter then length selectedSources = sourceListCount else True);
               data = filter (rowMatch toLowerCase (selectedCats st) activeCats
                                useTopicFilter selectedTopics isAllTopicsSelected
                                useSourceFilter selectedSources isAllSourcesSelected
                                onlyKeyEvents searchTerm) (rawData st)
           in drawChart (st\<lparr>filteredData := data, keyEvents := filter keyEvent data\<rparr>) data)"

section \<open>The older script\<close>

text \<open>
  The repository holds this logic twice. The definitions above follow the script with the
  clamped domain (\<open>src/unnamed/part_000\<close>). The older script \<open>src/scripts/app.js\<close> has no
  \<open>clampDomain\<close>, no \<open>FULL_EXTENT\<close> and no cached offsets; its \<open>drawAnnotations\<close> and
  \<open>getSelectedValues\<close> are those above. Its \<open>updateChart\<close>, wheel handler and \<open>zoomBy\<close> differ
  and are modelled here, under the names of the source with the suffix \<open>_app\<close>. They use
  the fields \<open>rawData\<close>, \<open>filteredData\<close>, \<open>keyEvents\<close>, \<open>currentXScale\<close> and
  \<open>selectedCats\<close> of the state.
\<close>

definition drawChart_app :: "state \<Rightarrow> row list \<Rightarrow> state" where
  "drawChart_app st data =
     (if data = [] then st else st\<lparr>currentXScale := Some (domainOf (d3_extent data))\<rparr>)"

definition rowMatch_app ::
  "(string \<Rightarrow> string) \<Rightarrow> string set \<Rightarrow> string list \<Rightarrow> string list \<Rightarrow> bool \<Rightarrow>
     string list \<Rightarrow> bool \<Rightarrow> bool \<Rightarrow> string \<Rightarrow> row \<Rightarrow> bool" where
  "rowMatch_app toLowerCase selCats activeCats selectedTopics isAllTopicsSelected
       selectedSources isAllSourcesSelected onlyKeyEvents searchTerm d =
     (let isMulti = (length (categories d) > 1);
          catMatch = (if activeCats = [] then False
                      else if isMulti then ''multi'' \<in> set activeCats
                      else list_ex (\<lambda>c. c \<in> set activeCats) (categories d));
          keyOk = (''key'' \<in> selCats \<or> \<not> keyEvent d);
          eventTopics = validTopics d;
          topicMatch = (if selectedTopics = [] then False
                        else if isAllTopicsSelected then True
                        else if eventTopics = [] then False
                        else list_ex (\<lambda>t. t \<in> set selectedTopics) eventTopics);
          sourceMatch = (if selectedSources = [] then False
                         else if isAllSourcesSelected then True
                         else if displaySource d = [] then False
                         else displaySource d \<in> set selectedSources);
          keyMatch = (\<not> onlyKeyEvents \<or> keyEvent d);
          searchMatch = (searchTerm = [] \<or>
                         (event d \<noteq> [] \<and> jsIncludes (toLowerCase (event d)) searchTerm) \<or>
                         (notesText d \<noteq> [] \<and> jsIncludes (toLowerCase (notesText d)) searchTerm))
      in catMatch \<and> keyOk \<and> topicMatch \<and> sourceMatch \<and> keyMatch \<and> searchMatch)"

text \<open>Here a label whose lookup entry is missing or empty stands for itself, and
  duplicates are kept.\<close>

definition readSelectedTopics_app :: "dropdown option \<Rightarrow> string list" where
  "readSelectedTopics_app topicDd =
     (let selectedTopics = getSelectedValues topicDd
      in case topicDd of
           None \<Rightarrow> selectedTopics
         | Some el \<Rightarrow>
             (case valueLookup el of
                None \<Rightarrow> selectedTopics
              | Some lookup \<Rightarrow>
                  map (\<lambda>lab. case lookup lab of
                               Some v \<Rightarrow> if v = [] then lab else v
                             | None \<Rightarrow> lab) selectedTopics))"

definition updateChart_app ::
  "(string \<Rightarrow> string) \<Rightarrow> (string \<Rightarrow> string) \<Rightarrow> controls \<Rightarrow> state \<Rightarrow> state" where
  "updateChart_app toLowerCase trim ui st =
     (let selectedTopics = readSelectedTopics_app (topicDropdown ui);
          selectedSources = getSelectedValues (sourceDropdown ui);
          onlyKeyEvents = keyEventFilter ui;
          searchTerm = toLowerCase (trim (search ui));
          activeCats = filter (\<lambda>k. k \<in> selectedCats st) categoryKeys
      in if activeCats = [] \<and> ''key'' \<notin> selectedCats st
         then drawChart_app (st\<lparr>filteredData := [], keyEvents := []\<rparr>) []
         else
           let totalTopics = optionCount (topicDropdown ui);
               totalSources = optionCount (sourceDropdown ui);
               isAllTopicsSelected = (totalTopics > 0 \<and> length selectedTopics = totalTopics);
               isAllSourcesSelected = (totalSources > 0 \<and> length selectedSources = totalSources);
               data = filter (rowMatch_app toLowerCase (selectedCats st) activeCats
                                selectedTopics isAllTopicsSelected
                                selectedSources isAllSourcesSelected
                                onlyKeyEvents searchTerm) (rawData st)
           in drawChart_app (st\<lparr>filteredData := data, keyEvents := filter keyEvent data\<rparr>) data)"

text \<open>
  \<open>zoomBy\<close> of the older script: the window is clamped to the extent of the filtered rows,
  the minimum zoom span is one day, and the new domain is applied by the function itself
  (\<open>None\<close>: it returned before).
\<close>

definition zoomWindow_app :: "state \<Rightarrow> date \<times> date \<Rightarrow> num \<Rightarrow> date option \<Rightarrow> date \<times> date" where
  "zoomWindow_app st domn factor anchorDate =
     (case domn of (d0, d1) \<Rightarrow>
        let center = (case anchorDate of
                        Some a \<Rightarrow> toNumber a
                      | None \<Rightarrow> jsDiv (jsAdd (toNumber d0) (toNumber d1)) (Some 2));
            spanv = jsDiv (jsSub (toNumber d1) (toNumber d0)) factor;
            newStart = newDate (jsSub center (jsDiv spanv (Some 2)));
            newEnd = newDate (jsAdd center (jsDiv spanv (Some 2)));
            dataExtent = d3_extent (filteredData st);
            maxSpan = jsSub (valueOf (snd dataExtent)) (valueOf (fst dataExtent));
            (newStart, newEnd) =
              (if jsGt (jsSub (toNumber newEnd) (toNumber newStart)) maxSpan
               then (newDateOf (fst dataExtent), newDateOf (snd dataExtent))
               else (newStart, newEnd));
            (newStart, newEnd) =
              (if jsLt (toNumber newStart) (valueOf (fst dataExtent))
               then (newDateOf (fst dataExtent),
                     newDate (jsAdd (valueOf (fst dataExtent)) spanv))
               else (newStart, newEnd));
            (newStart, newEnd) =
              (if jsGt (toNumber newEnd) (valueOf (snd dataExtent))
               then (newDate (jsSub (valueOf (snd dataExtent)) spanv),
                     newDateOf (snd dataExtent))
               else (newStart, newEnd))
        in (newStart, newEnd))"

definition zoomBy_app :: "state \<Rightarrow> num \<Rightarrow> date option \<Rightarrow> (date \<times> date) option" where
  "zoomBy_app st factor anchorDate =
     (case currentXScale st of
        None \<Rightarrow> None
      | Some domn \<Rightarrow>
          if filteredData st = [] then None
          else
            let (newStart, newEnd) = zoomWindow_app st domn factor anchorDate;
                minZoomSpan = 1000 * 60 * 60 * 24
            in if jsLt (jsSub (toNumber newEnd) (toNumber newStart)) (Some minZoomSpan)
               then None
               else Some (newStart, newEnd))"

text \<open>
  The wheel handler of the older script: the new span is the current span divided by
  the factor, centred on the Date under the pointer.
\<close>

definition wheel_app ::
  "(date \<times> date \<Rightarrow> real \<Rightarrow> date) \<Rightarrow> state \<Rightarrow> real \<Rightarrow> real \<Rightarrow> (date \<times> date) option" where
  "wheel_app invert st mouseX deltaY =
     (case currentXScale st of
        None \<Rightarrow> None
      | Some domn \<Rightarrow>
          let mouseDate = invert domn mouseX;
              factor = (if deltaY > 0 then 1.1 else 0.9);
              dataExtent = d3_extent (filteredData st);
              maxSpan = jsSub (valueOf (snd dataExtent)) (valueOf (fst dataExtent));
              newSpan = jsDiv (jsSub (toNumber (snd domn)) (toNumber (fst domn))) (Some factor);
              centerTime = toNumber mouseDate;
              newStart = newDate (jsSub centerTime (jsDiv newSpan (Some 2)));
              newEnd = newDate (jsAdd centerTime (jsDiv newSpan (Some 2)));
              (newStart, newEnd) =
                (if jsLt (toNumber newStart) (valueOf (fst dataExtent))
                 then (newDateOf (fst dataExtent),
                       newDate (jsAdd (valueOf (fst dataExtent)) newSpan))
                 else (newStart, newEnd));
              (newStart, newEnd) =
                (if jsGt (toNumber newEnd) (valueOf (snd dataExtent))
                 then (newDate (jsSub (valueOf (snd dataExtent)) newSpan),
                       newDateOf (snd dataExtent))
                 else (newStart, newEnd));
              (newStart, newEnd) =
                (if jsGt (jsSub (toNumber newEnd) (toNumber newStart)) maxSpan
                 then (newDateOf (fst dataExtent), newDateOf (snd dataExtent))
                 else (newStart, newEnd));
              minZoomSpan = 1000 * 60 * 60 * 24
          in if jsLt (jsSub (toNumber newEnd) (toNumber newStart)) (Some minZoomSpan)
             then None
             else Some (newStart, newEnd))"

section \<open>Notions used in the statements\<close>


text \<open>
  The window of \<open>zoomWindow\<close> in integer terms, for valid Dates, an extent from \<open>mn\<close> to
  \<open>mx\<close> and the domain midpoint as centre (lemma \<open>zoomWindow_eval\<close> below).
\<close>

definition zoomed :: "int \<Rightarrow> int \<Rightarrow> int \<Rightarrow> int \<Rightarrow> real \<Rightarrow> int \<times> int" where
  "zoomed mn mx d0 d1 f =
     (let spanR = real_of_int (d1 - d0) / f;
          c = (real_of_int d0 + real_of_int d1) / 2;
          ns = trunc (c - spanR / 2);
          ne = trunc (c + spanR / 2)
      in if real_of_int (mx - mn) < real_of_int (ne - ns) then (mn, mx)
         else if ns < mn
              then (if mx < trunc (real_of_int mn + spanR)
                    then (trunc (real_of_int mx - spanR), mx)
                    else (mn, trunc (real_of_int mn + spanR)))
              else if mx < ne then (trunc (real_of_int mx - spanR), mx) else (ns, ne))"

text \<open>One click on the zoom-out button: \<open>zoomBy(0.8)\<close> and its effect on the domain.\<close>

definition zoomOutStep :: "state \<Rightarrow> state" where
  "zoomOutStep st = applyCall st (zoomBy st (Some 0.8) None)"

text \<open>
  A state with data on the chart: the full extent runs from \<open>mn\<close> to \<open>mx\<close>, some rows
  pass the filter, the domain runs from \<open>d0\<close> to \<open>d1\<close>.
\<close>

definition zoomState :: "state \<Rightarrow> int \<Rightarrow> int \<Rightarrow> int \<Rightarrow> int \<Rightarrow> bool" where
  "zoomState st mn mx d0 d1 \<longleftrightarrow>
     FULL_EXTENT st = Some (DateObj (Some mn), DateObj (Some mx)) \<and> filteredData st \<noteq> [] \<and>
     currentXScale st = Some (Some d0, Some d1)"

section \<open>Example data\<close>

text \<open>
  Three rows, at day 0, day 50 and day 100 (a day is 86400000 ms); the second is a key
  event. A page with no dropdowns, a search box and all legend entries on.
\<close>

definition exRow :: "int \<Rightarrow> string \<Rightarrow> bool \<Rightarrow> row" where
  "exRow t title isKey =
     \<lparr>date = t, event = title, notesText = [], displaySource = [], categories = [''chemical''],
      validTopics = [], keyEvent = isKey, nodeX = None, nodeY = None, ySim = None,
      xOffset = None\<rparr>"

definition exRows :: "row list" where
  "exRows = [exRow 0 ''first report'' False, exRow 4320000000 ''sverdlovsk'' True,
             exRow 8640000000 ''last report'' False]"

definition exInitial :: state where
  "exInitial =
     \<lparr>rawData = [], filteredData = [], keyEvents = [], currentXScale = None,
      FULL_EXTENT = None, didInitialFit = False,
      selectedCats = {''biological'', ''chemical'', ''multi'', ''key''}\<rparr>"

definition exControls :: "string \<Rightarrow> controls" where
  "exControls term =
     \<lparr>topicDropdown = None, sourceDropdown = None, keyEventFilter = False, search = term\<rparr>"

text \<open>The data is loaded and drawn with nothing filtered out.\<close>

definition exLoaded :: state where
  "exLoaded = updateChart id id (exControls []) (loadData exRows exInitial)"

text \<open>Then the search box is set to a word that only the second row holds.\<close>

definition exSearched :: state where
  "exSearched = updateChart id id (exControls ''sverdlovsk'') exLoaded"

text \<open>The unfiltered chart zoomed to the thirty days from day 35 to day 65.\<close>

definition exZoomedIn :: state where
  "exZoomedIn = exLoaded\<lparr>currentXScale := Some (Some 3024000000, Some 5616000000)\<rparr>"

text \<open>A scale that shows one millisecond per pixel, and a simulation that moves nothing
  but puts every node three pixels right of its ideal position on the centre line.\<close>

definition exScale :: "date \<times> date \<Rightarrow> int \<Rightarrow> num" where
  "exScale domn t = jsSub (Some (real_of_int t)) (toNumber (fst domn))"

definition exSimulate :: "(int \<Rightarrow> num) \<Rightarrow> row list \<Rightarrow> row list" where
  "exSimulate xs data = map (\<lambda>d. d\<lparr>nodeX := jsAdd (xs (date d)) (Some 3), nodeY := Some 168\<rparr>) data"

text \<open>The inverse of \<open>exScale\<close>: the Date under a pixel.\<close>

definition exInvert :: "date \<times> date \<Rightarrow> real \<Rightarrow> date" where
  "exInvert domn px = newDate (jsAdd (toNumber (fst domn)) (Some px))"

section \<open>Truncation\<close>

lemma trunc_of_int [simp]: "trunc (real_of_int i) = i"
  by (simp add: trunc_def)

lemma trunc_lower: "x - 1 < real_of_int (trunc x)"
  unfolding trunc_def by (simp; linarith)

lemma trunc_upper: "real_of_int (trunc x) < x + 1"
  unfolding trunc_def by (simp; linarith)

lemma trunc_ge: "real_of_int i \<le> x \<Longrightarrow> i \<le> trunc x"
  unfolding trunc_def by (simp add: le_floor_iff; linarith)

lemma trunc_le: "x \<le> real_of_int i \<Longrightarrow> trunc x \<le> i"
  unfolding trunc_def by (simp add: ceiling_le_iff; linarith)

lemma trunc_eqI: "x = real_of_int i \<Longrightarrow> trunc x = i"
  by simp

lemma trunc_int_arith [simp]:
  "trunc (real_of_int a + numeral k) = a + numeral k"
  "trunc (real_of_int a - numeral k) = a - numeral k"
  "trunc (real_of_int a - (real_of_int b - real_of_int c)) = a - (b - c)"
  "trunc (real_of_int a + (real_of_int b - real_of_int c)) = a + (b - c)"
  by (rule trunc_eqI, simp)+

section \<open>The clamp: what holds of \<open>clampDomain\<close>\<close>

lemma isTime_valueOf [simp]: "isTime v t \<Longrightarrow> valueOf v = Some (real_of_int t)"
  by (auto simp: isTime_def toNumber_def)

lemma isTime_newDateOf [simp]: "isTime v t \<Longrightarrow> newDateOf v = Some t"
  by (auto simp: isTime_def newDate_def)

text \<open>A window that starts inside the bounds is at most moved down from the upper bound.\<close>

lemma keepInside_inside:
  assumes "isTime minv mn" "isTime maxv mx" "mn \<le> s"
  shows "keepInside parse (Some s, Some e) (minv, maxv) (Some (real_of_int (e - s)))
         = (if mx < e then (Some (mx - (e - s)), Some mx) else (Some s, Some e))"
  using assms by (simp add: keepInside_def toNumber_def jsGt_def newDate_def)

text \<open>With a numeric lower bound, a window that starts below it is moved up.\<close>

lemma keepInside_left:
  assumes "isTime maxv mx" "s < mn" "e - s < mx - mn"
  shows "keepInside parse (Some s, Some e) (Number (Some (real_of_int mn)), maxv)
           (Some (real_of_int (e - s))) = (Some mn, Some (mn + (e - s)))"
  using assms by (simp add: keepInside_def toNumber_def jsGt_def newDate_def)

lemma safetySwap_ordered: "s \<le> e \<Longrightarrow> safetySwap (Some s, Some e) = (Some s, Some e)"
  by (simp add: safetySwap_def toNumber_def)

lemma enforceMinimum_long:
  "MIN_SPAN_MS \<le> real_of_int (e - s) \<Longrightarrow>
   enforceMinimum parse (Some s, Some e) mm = (Some s, Some e)"
  by (cases mm) (simp add: enforceMinimum_def toNumber_def)

lemma enforceMinimum_short:
  assumes "isTime minv mn" "isTime maxv mx" "real_of_int (e - s) < MIN_SPAN_MS"
    and "a = trunc ((real_of_int s + real_of_int e) / 2 - MIN_SPAN_MS / 2)"
    and "b = trunc ((real_of_int s + real_of_int e) / 2 + MIN_SPAN_MS / 2)"
    and "mn \<le> a"
  shows "enforceMinimum parse (Some s, Some e) (minv, maxv)
         = (if mx < b then (Some (mx - 2592000000), Some mx) else (Some a, Some b))"
  using assms
  by (simp add: enforceMinimum_def toNumber_def jsGt_def newDate_def MIN_SPAN_MS_def Let_def)

lemma enforceMinimum_short_left:
  assumes "isTime maxv mx" "real_of_int (e - s) < MIN_SPAN_MS"
    and "a = trunc ((real_of_int s + real_of_int e) / 2 - MIN_SPAN_MS / 2)"
    and "a < mn" "MIN_SPAN_MS \<le> real_of_int (mx - mn)"
  shows "enforceMinimum parse (Some s, Some e) (Number (Some (real_of_int mn)), maxv)
         = (Some mn, Some (mn + 2592000000))"
  using assms
  by (simp add: enforceMinimum_def toNumber_def jsGt_def newDate_def MIN_SPAN_MS_def Let_def)

text \<open>
  The window of length \<open>MIN_SPAN_MS\<close> around a midpoint, after truncation of both ends:
  one millisecond can be lost when the window straddles time zero.
\<close>

lemma recentred_bounds:
  fixes s e :: int
  assumes "a = trunc ((real_of_int s + real_of_int e) / 2 - MIN_SPAN_MS / 2)"
    and "b = trunc ((real_of_int s + real_of_int e) / 2 + MIN_SPAN_MS / 2)"
  shows "a \<le> b" and "MIN_SPAN_MS - 1 \<le> real_of_int (b - a)"
    and "0 < a \<Longrightarrow> MIN_SPAN_MS \<le> real_of_int (b - a)"
proof -
  define m where "m = (real_of_int s + real_of_int e) / 2"
  have a: "a = trunc (m - 1296000000)" and b: "b = trunc (m + 1296000000)"
    using assms by (simp_all add: m_def MIN_SPAN_MS_def)
  have la: "real_of_int a < m - 1296000000 + 1" and ub: "m + 1296000000 - 1 < real_of_int b"
    using trunc_upper [of "m - 1296000000"] trunc_lower [of "m + 1296000000"] a b by simp_all
  have "real_of_int (b - a) > 2592000000 - 2" using la ub by simp
  then have "b - a > 2592000000 - 2" by linarith
  then have "b - a \<ge> 2592000000 - 1" by linarith
  then show wide: "MIN_SPAN_MS - 1 \<le> real_of_int (b - a)" by (simp add: MIN_SPAN_MS_def)
  from wide show "a \<le> b" by (simp add: MIN_SPAN_MS_def)
  show "MIN_SPAN_MS \<le> real_of_int (b - a)" if "0 < a"
  proof -
    have pos: "0 \<le> m - 1296000000"
    proof (rule ccontr)
      assume "\<not> 0 \<le> m - 1296000000"
      then have "trunc (m - 1296000000) \<le> 0" using trunc_le [of "m - 1296000000" 0] by simp
      with that a show False by simp
    qed
    have "a = \<lfloor>m - 1296000000\<rfloor>" "b = \<lfloor>m + 1296000000\<rfloor>"
      using pos a b by (simp_all add: trunc_def)
    then have "b - a = 2592000000" by simp
    then show ?thesis by (simp add: MIN_SPAN_MS_def)
  qed
qed

lemma enforceMinimum_window:
  assumes bounds: "isTime minv mn" "isTime maxv mx" "MIN_SPAN_MS \<le> real_of_int (mx - mn)"
    and inside: "mn \<le> s1" "s1 \<le> e1" "e1 \<le> mx"
    and noparse: "minv = Number (Some (real_of_int mn)) \<or> MIN_SPAN_MS \<le> real_of_int (e1 - s1)
                  \<or> real_of_int (2 * mn) + MIN_SPAN_MS \<le> real_of_int (s1 + e1)"
  shows "\<exists>s' e'. enforceMinimum parse (Some s1, Some e1) (minv, maxv) = (Some s', Some e') \<and>
           mn \<le> s' \<and> s' \<le> e' \<and> e' \<le> mx \<and> MIN_SPAN_MS - 1 \<le> real_of_int (e' - s') \<and>
           (0 < mn \<longrightarrow> MIN_SPAN_MS \<le> real_of_int (e' - s'))"
proof (cases "MIN_SPAN_MS \<le> real_of_int (e1 - s1)")
  case True
  then show ?thesis using inside by (simp add: enforceMinimum_long)
next
  case short: False
  define a where "a = trunc ((real_of_int s1 + real_of_int e1) / 2 - MIN_SPAN_MS / 2)"
  define b where "b = trunc ((real_of_int s1 + real_of_int e1) / 2 + MIN_SPAN_MS / 2)"
  note ab = recentred_bounds [OF a_def b_def]
  show ?thesis
  proof (cases "mn \<le> a")
    case True
    have eq: "enforceMinimum parse (Some s1, Some e1) (minv, maxv)
              = (if mx < b then (Some (mx - 2592000000), Some mx) else (Some a, Some b))"
      using enforceMinimum_short [OF bounds(1,2) _ a_def b_def True] short by simp
    show ?thesis
    proof (cases "mx < b")
      case True
      then show ?thesis using eq bounds(3) by (simp add: MIN_SPAN_MS_def)
    next
      case False
      then show ?thesis using eq ab True by auto
    qed
  next
    case left: False
    have "\<not> real_of_int (2 * mn) + MIN_SPAN_MS \<le> real_of_int (s1 + e1)"
    proof
      assume "real_of_int (2 * mn) + MIN_SPAN_MS \<le> real_of_int (s1 + e1)"
      then have "real_of_int mn \<le> (real_of_int s1 + real_of_int e1) / 2 - MIN_SPAN_MS / 2"
        by (simp add: field_simps)
      then have "mn \<le> a" unfolding a_def by (rule trunc_ge)
      with left show False by simp
    qed
    with noparse short have num: "minv = Number (Some (real_of_int mn))" by simp
    have "enforceMinimum parse (Some s1, Some e1) (minv, maxv) = (Some mn, Some (mn + 2592000000))"
      unfolding num using enforceMinimum_short_left [OF bounds(2) _ a_def _ bounds(3)] short left
      by simp
    then show ?thesis using bounds(3) by (simp add: MIN_SPAN_MS_def)
  qed
qed

text \<open>
  What \<open>clampDomain\<close> does where it does not add a number to the lower bound. The bounds
  are \<open>mn \<le> mx\<close>, given as Dates or as numbers, and the proposed window \<open>[s, e]\<close> is not
  inverted.
  \<^item> A window at least as long as the full extent gives the full extent.
  \<^item> If the full extent is at least \<open>MIN_SPAN_MS\<close> long, the result \<open>[s', e']\<close> lies within
    the bounds with \<open>s' \<le> e'\<close>, and is at least \<open>MIN_SPAN_MS\<close> long, less one millisecond
    only when the data set starts at or before time zero and the truncation of the
    recentred ends loses it. For bounds given as Date objects this is stated where the
    function does not add a number to the lower bound: the window covers the full extent,
    or it starts at or after \<open>mn\<close> and either is \<open>MIN_SPAN_MS\<close> long or has its midpoint at
    least half of \<open>MIN_SPAN_MS\<close> after \<open>mn\<close>. For bounds given as numbers, which no caller
    passes, it holds throughout.
\<close>

lemma clampDomain_window:
  assumes bounds: "isTime minv mn" "isTime maxv mx" "mn \<le> mx" and window: "s \<le> e"
  shows "(mx - mn \<le> e - s \<longrightarrow>
            clampDomain parse (Some s, Some e) (minv, maxv) = (Some mn, Some mx)) \<and>
         (MIN_SPAN_MS \<le> real_of_int (mx - mn) \<and>
          (mx - mn \<le> e - s \<or> minv = Number (Some (real_of_int mn)) \<or>
           mn \<le> s \<and> (MIN_SPAN_MS \<le> real_of_int (e - s) \<or>
                      real_of_int (2 * mn) + MIN_SPAN_MS \<le> real_of_int (s + e))) \<longrightarrow>
          (\<exists>s' e'. clampDomain parse (Some s, Some e) (minv, maxv) = (Some s', Some e') \<and>
             mn \<le> s' \<and> s' \<le> e' \<and> e' \<le> mx \<and> MIN_SPAN_MS - 1 \<le> real_of_int (e' - s') \<and>
             (0 < mn \<longrightarrow> MIN_SPAN_MS \<le> real_of_int (e' - s'))))"
proof (intro conjI impI)
  assume "mx - mn \<le> e - s"
  then show "clampDomain parse (Some s, Some e) (minv, maxv) = (Some mn, Some mx)"
    using bounds by (simp add: clampDomain_def jsGe_def toNumber_def)
next
  assume hyp: "MIN_SPAN_MS \<le> real_of_int (mx - mn) \<and>
          (mx - mn \<le> e - s \<or> minv = Number (Some (real_of_int mn)) \<or>
           mn \<le> s \<and> (MIN_SPAN_MS \<le> real_of_int (e - s) \<or>
                      real_of_int (2 * mn) + MIN_SPAN_MS \<le> real_of_int (s + e)))"
  then have long: "MIN_SPAN_MS \<le> real_of_int (mx - mn)" by simp
  let ?goal = "\<exists>s' e'. clampDomain parse (Some s, Some e) (minv, maxv) = (Some s', Some e') \<and>
             mn \<le> s' \<and> s' \<le> e' \<and> e' \<le> mx \<and> MIN_SPAN_MS - 1 \<le> real_of_int (e' - s') \<and>
             (0 < mn \<longrightarrow> MIN_SPAN_MS \<le> real_of_int (e' - s'))"
  show ?goal
  proof (cases "mx - mn \<le> e - s")
    case True
    then have "clampDomain parse (Some s, Some e) (minv, maxv) = (Some mn, Some mx)"
      using bounds by (simp add: clampDomain_def jsGe_def toNumber_def)
    then show ?thesis using bounds(3) long by simp
  next
    case shorter: False
    then have unfold: "clampDomain parse (Some s, Some e) (minv, maxv)
        = enforceMinimum parse
            (safetySwap (keepInside parse (Some s, Some e) (minv, maxv)
               (Some (real_of_int (e - s))))) (minv, maxv)"
      using bounds by (simp add: clampDomain_def jsGe_def toNumber_def)
    have "\<exists>s1 e1. safetySwap (keepInside parse (Some s, Some e) (minv, maxv)
               (Some (real_of_int (e - s)))) = (Some s1, Some e1) \<and>
            mn \<le> s1 \<and> s1 \<le> e1 \<and> e1 \<le> mx \<and>
            (minv = Number (Some (real_of_int mn)) \<or> MIN_SPAN_MS \<le> real_of_int (e1 - s1)
                  \<or> real_of_int (2 * mn) + MIN_SPAN_MS \<le> real_of_int (s1 + e1))"
    proof (cases "mn \<le> s")
      case True
      note keep = keepInside_inside [OF bounds(1,2) True, of parse e]
      show ?thesis
      proof (cases "mx < e")
        case True
        have "MIN_SPAN_MS \<le> real_of_int (e - s) \<or>
              real_of_int (2 * mn) + MIN_SPAN_MS \<le> real_of_int (mx - (e - s) + mx)"
          using long by auto
        then show ?thesis using keep True window shorter
          by (simp add: safetySwap_ordered)
      next
        case False
        then show ?thesis using keep window \<open>mn \<le> s\<close> hyp shorter
          by (auto simp: safetySwap_ordered)
      qed
    next
      case False
      with hyp shorter have num: "minv = Number (Some (real_of_int mn))" by simp
      have "keepInside parse (Some s, Some e) (minv, maxv) (Some (real_of_int (e - s)))
            = (Some mn, Some (mn + (e - s)))"
        unfolding num using keepInside_left [OF bounds(2), of s mn e parse] False shorter by simp
      then show ?thesis using window shorter num by (simp add: safetySwap_ordered)
    qed
    then obtain s1 e1 where
      "safetySwap (keepInside parse (Some s, Some e) (minv, maxv)
               (Some (real_of_int (e - s)))) = (Some s1, Some e1)"
      "mn \<le> s1" "s1 \<le> e1" "e1 \<le> mx"
      "minv = Number (Some (real_of_int mn)) \<or> MIN_SPAN_MS \<le> real_of_int (e1 - s1)
                  \<or> real_of_int (2 * mn) + MIN_SPAN_MS \<le> real_of_int (s1 + e1)"
      by blast
    then show ?thesis
      using enforceMinimum_window [OF bounds(1,2) long, of s1 e1 parse] unfold by simp
  qed
qed

text \<open>
  A window of one day inside a data set of a hundred days, given as Dates, within fifteen
  days of neither end: it is widened to thirty days around its midpoint.
\<close>

lemma clampDomain_window_example:
  "\<exists>s' e'. clampDomain parse (Some 4320000000, Some 4406400000)
               (DateObj (Some 86400000), DateObj (Some 8640000000)) = (Some s', Some e') \<and>
      86400000 \<le> s' \<and> s' \<le> e' \<and> e' \<le> 8640000000 \<and> MIN_SPAN_MS \<le> real_of_int (e' - s')"
proof -
  have b1: "isTime (DateObj (Some 86400000)) 86400000"
    and b2: "isTime (DateObj (Some 8640000000)) 8640000000"
    by (simp_all add: isTime_def)
  have o1: "(86400000 :: int) \<le> 8640000000" and o2: "(4320000000 :: int) \<le> 4406400000"
    by simp_all
  have long: "MIN_SPAN_MS \<le> real_of_int (8640000000 - 86400000)"
    by (simp add: MIN_SPAN_MS_def)
  have mid: "real_of_int (2 * 86400000) + MIN_SPAN_MS \<le> real_of_int (4320000000 + 4406400000)"
    by (simp add: MIN_SPAN_MS_def)
  show ?thesis
    using clampDomain_window [OF b1 b2 o1 o2, of parse] b1 b2 long mid
    by simp blast
qed

text \<open>
  Where the full extent is shorter than \<open>MIN_SPAN_MS\<close> the second clamp to the data set
  misses a case: with data from day 0 to day 20 and the window from day 17 to day 19, the
  result runs from day -10 to day 20. It is neither within the bounds nor the full extent.
  (No number is added to a bound on this path, so the result is the same for every
  \<open>parse\<close>.)
\<close>

lemma clampDomain_short_extent_example:
  "clampDomain parse (Some 1468800000, Some 1641600000)
     (DateObj (Some 0), DateObj (Some 1728000000)) = (Some (- 864000000), Some 1728000000)"
  by (simp add: clampDomain_def keepInside_def safetySwap_def enforceMinimum_def MIN_SPAN_MS_def
      jsGe_def jsGt_def toNumber_def newDate_def trunc_def)

text \<open>
  An inverted window is swapped after it was moved, and can end outside the bounds:
  data from day 100 to day 300, window from day 350 back to day 310.
\<close>

lemma clampDomain_inverted_example:
  "clampDomain parse (Some 30240000000, Some 26784000000)
     (DateObj (Some 8640000000), DateObj (Some 25920000000))
   = (Some 25920000000, Some 29376000000)"
  by (simp add: clampDomain_def keepInside_def safetySwap_def enforceMinimum_def MIN_SPAN_MS_def
      jsGe_def jsGt_def toNumber_def newDate_def trunc_def)

text \<open>
  Claim C1, for the bounds every caller passes, which are Date objects. Both lines that
  move the window to the lower bound compute \<open>new Date(min + span)\<close>, and on a Date \<open>min\<close>
  the \<open>+\<close> concatenates texts (\<open>zoomBy\<close> writes \<open>+extent[0]\<close> first and adds numbers). With an
  engine that reads the text back as the Date \<open>min\<close>, every proposed window that starts
  before \<open>min\<close> and is shorter than the full extent comes back as the one instant
  \<open>[min, min]\<close>: the second attempt, in the minimum-span block, ends the same way. The
  result is not \<open>MIN_SPAN_MS\<close> long, however long the data set is.
\<close>

theorem clampDomain_date_bounds_collapse:
  assumes reads: "\<And>n. parse (Some mn) n = Some mn"
    and bounds: "mn \<le> mx"
    and left: "s < mn"
    and shorter: "e - s < mx - mn"
  shows "clampDomain parse (Some s, Some e) (DateObj (Some mn), DateObj (Some mx))
         = (Some mn, Some mn)"
proof -
  have keep: "keepInside parse (Some s, Some e) (DateObj (Some mn), DateObj (Some mx))
                (Some (real_of_int e - real_of_int s)) = (Some mn, Some mn)"
    using reads bounds left by (simp add: keepInside_def toNumber_def jsGt_def)
  have swap: "safetySwap (Some mn, Some mn) = (Some mn, Some mn)"
    by (simp add: safetySwap_def toNumber_def)
  have wide: "enforceMinimum parse (Some mn, Some mn) (DateObj (Some mn), DateObj (Some mx))
              = (Some mn, Some mn)"
    using reads bounds
    by (simp add: enforceMinimum_def toNumber_def newDate_def jsGt_def MIN_SPAN_MS_def Let_def)
  show ?thesis
    using shorter keep swap wide
    by (simp add: clampDomain_def toNumber_def jsGe_def)
qed

text \<open>
  Data from day 0 to day 100, and a drag that proposes the forty days from day -1 to
  day 39: the claim asks for a window of at least thirty days within the data, the
  function returns the instant day 0.
\<close>

theorem clampDomain_date_bounds_collapse_witness:
  "(\<forall>n. parseBack (Some 0) n = Some 0) \<and> (0 :: int) \<le> 8640000000 \<and> (- 86400000 :: int) < 0 \<and>
   (3369600000 - (- 86400000) :: int) < 8640000000 - 0 \<and>
   MIN_SPAN_MS \<le> real_of_int (8640000000 - 0) \<and>
   clampDomain parseBack (Some (- 86400000), Some 3369600000)
     (DateObj (Some 0), DateObj (Some 8640000000)) = (Some 0, Some 0)"
  using clampDomain_date_bounds_collapse [of parseBack 0 8640000000 "- 86400000" 3369600000]
  by (simp add: parseBack_def MIN_SPAN_MS_def)

section \<open>The filter: what holds of \<open>updateChart\<close>\<close>

lemma filteredData_drawChart [simp]: "filteredData (drawChart s data) = filteredData s"
  by (simp add: drawChart_def Let_def split: option.splits)

lemma keyEvents_drawChart [simp]: "keyEvents (drawChart s data) = keyEvents s"
  by (simp add: drawChart_def Let_def split: option.splits)

lemma filteredData_drawChart_app [simp]: "filteredData (drawChart_app s data) = filteredData s"
  by (simp add: drawChart_app_def)

lemma keyEvents_drawChart_app [simp]: "keyEvents (drawChart_app s data) = keyEvents s"
  by (simp add: drawChart_app_def)

text \<open>
  Claim C7. With none of the three categories active in the legend and key events
  switched off there, no row is left, whatever the dropdowns, the key-events-only box
  and the search box hold. Both scripts.
\<close>

theorem updateChart_nothing_selected:
  assumes "''biological'' \<notin> selectedCats st" "''chemical'' \<notin> selectedCats st"
    "''multi'' \<notin> selectedCats st" "''key'' \<notin> selectedCats st"
  shows "filteredData (updateChart toLowerCase trim ui st) = [] \<and>
         keyEvents (updateChart toLowerCase trim ui st) = [] \<and>
         filteredData (updateChart_app toLowerCase trim ui st) = [] \<and>
         keyEvents (updateChart_app toLowerCase trim ui st) = []"
  using assms by (simp add: updateChart_def updateChart_app_def categoryKeys_def Let_def)

lemma exLoaded_eq:
  "exLoaded =
     \<lparr>rawData = exRows, filteredData = exRows, keyEvents = [exRow 4320000000 ''sverdlovsk'' True],
      currentXScale = Some (Some 0, Some 8640000000),
      FULL_EXTENT = Some (DateObj (Some 0), DateObj (Some 8640000000)),
      didInitialFit = True,
      selectedCats = {''biological'', ''chemical'', ''multi'', ''key''}\<rparr>"
  by (simp add: updateChart_def exLoaded_def loadData_def exInitial_def exControls_def
      exRows_def exRow_def rowMatch_def categoryKeys_def optionCount_def
      readSelectedTopics_def getSelectedValues_def drawChart_def domainOf_def toNumber_def
      newDate_def trunc_def Let_def)

text \<open>The example chart with every legend entry switched off.\<close>

theorem updateChart_nothing_selected_witness:
  "''biological'' \<notin> selectedCats (exLoaded\<lparr>selectedCats := {}\<rparr>) \<and>
   ''chemical'' \<notin> selectedCats (exLoaded\<lparr>selectedCats := {}\<rparr>) \<and>
   ''multi'' \<notin> selectedCats (exLoaded\<lparr>selectedCats := {}\<rparr>) \<and>
   ''key'' \<notin> selectedCats (exLoaded\<lparr>selectedCats := {}\<rparr>) \<and>
   rawData (exLoaded\<lparr>selectedCats := {}\<rparr>) = exRows \<and>
   filteredData (updateChart id id (exControls []) (exLoaded\<lparr>selectedCats := {}\<rparr>)) = [] \<and>
   filteredData (updateChart_app id id (exControls []) (exLoaded\<lparr>selectedCats := {}\<rparr>)) = []"
  using updateChart_nothing_selected [of "exLoaded\<lparr>selectedCats := {}\<rparr>" id id "exControls []"]
  by (simp add: exLoaded_eq)














section \<open>Panning reprojects the cached layout\<close>

text \<open>
  Claim C5. A redraw without repack leaves the nodes as they are, so every cached
  \<open>xOffset\<close> and \<open>ySim\<close> (and \<open>x\<close>, \<open>y\<close>) is unchanged, and puts every circle at the
  position of its date on the new scale plus the cached offset, at the cached \<open>y\<close>.
  After a packing at a domain \<open>domn\<close> every node has both caches set, its circle was
  drawn at old scale position plus offset, and the redraw moves it by exactly the
  difference of its two scale positions. Both pan handlers redraw without repack.
\<close>

theorem pan_keeps_offsets:
  "nodes (setDomainAndRedraw scale simulate keyEvs data start endd False) = data \<and>
   newDomain (setDomainAndRedraw scale simulate keyEvs data start endd False) = (start, endd) \<and>
   circles (setDomainAndRedraw scale simulate keyEvs data start endd False)
     = map (circleAt (scale (start, endd))) data \<and>
   snd (packDots scale simulate domn data0)
     = map (circleAt (scale domn)) (fst (packDots scale simulate domn data0)) \<and>
   (\<forall>d \<in> set (fst (packDots scale simulate domn data0)).
      \<exists>off sy. xOffset d = Some off \<and> ySim d = Some sy \<and>
        circleAt (scale domn) d = (jsAdd (scale domn (date d)) (Some off), sy) \<and>
        circleAt (scale (start, endd)) d = (jsAdd (scale (start, endd) (date d)) (Some off), sy) \<and>
        (\<forall>px px'. scale domn (date d) = Some px \<and> scale (start, endd) (date d) = Some px' \<longrightarrow>
           fst (circleAt (scale domn) d) = Some (px + off) \<and>
           fst (circleAt (scale (start, endd)) d) = Some (px' + off))) \<and>
   (\<forall>call. dragPan parse invert st dxPx = Some call \<or> touchPan parse invert st dxPx = Some call
      \<longrightarrow> \<not> snd (snd call))"
  by (auto simp: setDomainAndRedraw_def packDots_def cacheOffsets_def circleAt_def Let_def
      dragPan_def touchPan_def split: option.splits prod.splits)

text \<open>
  One node at time 50, packed on the domain from 0 to 100 with an offset of 3 pixels, then
  panned to the domain from 20 to 120: the circle moves from pixel 53 to pixel 33, as the
  ideal position moves from 50 to 30.
\<close>

theorem pan_keeps_offsets_witness:
  "fst (packDots exScale exSimulate (Some 0, Some 100) [exRow 50 ''a'' False])
     = [(exRow 50 ''a'' False)\<lparr>nodeX := Some 53, nodeY := Some 168, ySim := Some (Some 168),
                                xOffset := Some 3\<rparr>] \<and>
   exScale (Some 0, Some 100) 50 = Some 50 \<and> exScale (Some 20, Some 120) 50 = Some 30 \<and>
   fst (circleAt (exScale (Some 0, Some 100))
          ((exRow 50 ''a'' False)\<lparr>nodeX := Some 53, nodeY := Some 168, ySim := Some (Some 168),
                                   xOffset := Some 3\<rparr>)) = Some 53 \<and>
   circles (setDomainAndRedraw exScale exSimulate []
              (fst (packDots exScale exSimulate (Some 0, Some 100) [exRow 50 ''a'' False]))
              (Some 20) (Some 120) False) = [(Some 33, Some 168)] \<and>
   nodes (setDomainAndRedraw exScale exSimulate []
            (fst (packDots exScale exSimulate (Some 0, Some 100) [exRow 50 ''a'' False]))
            (Some 20) (Some 120) False)
     = fst (packDots exScale exSimulate (Some 0, Some 100) [exRow 50 ''a'' False])"
proof -
  define node where "node = (exRow 50 ''a'' False)\<lparr>nodeX := Some 53, nodeY := Some 168,
      ySim := Some (Some 168), xOffset := Some 3\<rparr>"
  have packed: "fst (packDots exScale exSimulate (Some 0, Some 100) [exRow 50 ''a'' False]) = [node]"
    by (simp add: packDots_def cacheOffsets_def exSimulate_def exScale_def exRow_def node_def
        toNumber_def Let_def)
  have pos: "exScale (Some 0, Some 100) 50 = Some 50" "exScale (Some 20, Some 120) 50 = Some 30"
    by (simp_all add: exScale_def toNumber_def)
  note inst = pan_keeps_offsets [of exScale exSimulate "[]" "[node]" "Some 20" "Some 120"
      "(Some 0, Some 100)" "[exRow 50 ''a'' False]"]
  have at: "circleAt (exScale (Some 20, Some 120)) node = (Some 33, Some 168)"
    "fst (circleAt (exScale (Some 0, Some 100)) node) = Some 53"
    by (simp_all add: circleAt_def node_def exRow_def pos)
  have "circles (setDomainAndRedraw exScale exSimulate [] [node] (Some 20) (Some 120) False)
          = [(Some 33, Some 168)]"
    using inst at by simp
  moreover have "nodes (setDomainAndRedraw exScale exSimulate [] [node] (Some 20) (Some 120) False)
          = [node]"
    using inst by simp
  ultimately show ?thesis using packed pos at by (simp add: node_def)
qed

section \<open>Rows of labels\<close>

lemma findLevel_free: "\<not> collides placed a b (findLevel placed a b lev)"
proof (induction placed a b lev rule: findLevel.induct)
  case (1 placed a b lev)
  then show ?case by (subst findLevel.simps) simp
qed

text \<open>Placing one more label keeps every label clear of the earlier labels of its row.\<close>

lemma placeLabel_rows:
  assumes "\<forall>i j. i < j \<and> j < length ls \<longrightarrow> level (ls ! i) = level (ls ! j) \<longrightarrow>
             x2 (ls ! j) - labelPadding < x1 (ls ! i) \<or> x2 (ls ! i) < x1 (ls ! j) + labelPadding"
  shows "\<forall>i j. i < j \<and> j < length (placeLabel xs ls d) \<longrightarrow>
           level (placeLabel xs ls d ! i) = level (placeLabel xs ls d ! j) \<longrightarrow>
             x2 (placeLabel xs ls d ! j) - labelPadding < x1 (placeLabel xs ls d ! i) \<or>
             x2 (placeLabel xs ls d ! i) < x1 (placeLabel xs ls d ! j) + labelPadding"
proof (cases "xs (date d)")
  case None
  then show ?thesis using assms by (simp add: placeLabel_def)
next
  case (Some xPos)
  define a where "a = xPos - real (length (labelText d)) * 7 / 2"
  define b where "b = xPos + real (length (labelText d)) * 7 / 2"
  define n where "n = \<lparr>x1 = a - labelPadding, x2 = b + labelPadding, level = findLevel ls a b 0\<rparr>"
  have eq: "placeLabel xs ls d = ls @ [n]"
    using Some by (simp add: placeLabel_def a_def b_def n_def Let_def)
  have free: "\<forall>l \<in> set ls. level l = level n \<longrightarrow> b < x1 l \<or> a > x2 l"
    using findLevel_free [of ls a b 0] by (auto simp: collides_def list_ex_iff n_def)
  show ?thesis
  proof (intro allI impI)
    fix i j
    assume ij: "i < j \<and> j < length (placeLabel xs ls d)"
      and lev: "level (placeLabel xs ls d ! i) = level (placeLabel xs ls d ! j)"
    show "x2 (placeLabel xs ls d ! j) - labelPadding < x1 (placeLabel xs ls d ! i) \<or>
          x2 (placeLabel xs ls d ! i) < x1 (placeLabel xs ls d ! j) + labelPadding"
    proof (cases "j < length ls")
      case True
      then show ?thesis using assms ij lev by (simp add: eq nth_append)
    next
      case False
      then have j: "j = length ls" using ij by (simp add: eq)
      then have i: "i < length ls" using ij by simp
      then have "ls ! i \<in> set ls" by simp
      moreover have "level (ls ! i) = level n" using lev i j by (simp add: eq nth_append)
      ultimately have "b < x1 (ls ! i) \<or> a > x2 (ls ! i)" using free by blast
      then show ?thesis using i j by (auto simp: eq nth_append n_def)
    qed
  qed
qed

text \<open>
  Claim C6, as the code has it. The test of the stacker compares the extent of the new
  label without padding against the padded extents of the labels placed before. So of
  two labels on one row, the later one (\<open>j\<close>) keeps its unpadded extent clear of the
  padded extent of the earlier one (\<open>i\<close>): their padded extents, which are what
  \<open>placedLabels\<close> holds, overlap by less than \<open>labelPadding\<close>, and need not be disjoint.
  The result is a function of the key events in their order and of the scale.
\<close>

theorem drawAnnotations_rows:
  "\<forall>i j. i < j \<and> j < length (drawAnnotations xs keyEvs) \<longrightarrow>
     level (drawAnnotations xs keyEvs ! i) = level (drawAnnotations xs keyEvs ! j) \<longrightarrow>
       x2 (drawAnnotations xs keyEvs ! j) - labelPadding < x1 (drawAnnotations xs keyEvs ! i) \<or>
       x2 (drawAnnotations xs keyEvs ! i) < x1 (drawAnnotations xs keyEvs ! j) + labelPadding"
proof -
  have "\<forall>i j. i < j \<and> j < length (foldl (placeLabel xs) ls ds) \<longrightarrow>
     level (foldl (placeLabel xs) ls ds ! i) = level (foldl (placeLabel xs) ls ds ! j) \<longrightarrow>
       x2 (foldl (placeLabel xs) ls ds ! j) - labelPadding < x1 (foldl (placeLabel xs) ls ds ! i) \<or>
       x2 (foldl (placeLabel xs) ls ds ! i) < x1 (foldl (placeLabel xs) ls ds ! j) + labelPadding"
    if "\<forall>i j. i < j \<and> j < length ls \<longrightarrow> level (ls ! i) = level (ls ! j) \<longrightarrow>
             x2 (ls ! j) - labelPadding < x1 (ls ! i) \<or> x2 (ls ! i) < x1 (ls ! j) + labelPadding"
    for ls ds
    using that
  proof (induction ds arbitrary: ls)
    case Nil
    then show ?case by simp
  next
    case (Cons d ds)
    show ?case using Cons.IH [OF placeLabel_rows [OF Cons.prems]] by simp
  qed
  from this [of "[]" "sort_key date keyEvs"] show ?thesis
    by (simp add: drawAnnotations_def)
qed

text \<open>
  Two key events with titles of ten characters at pixels 35 and 110: the labels span
  0 to 70 and 75 to 145, their padded extents -4 to 74 and 71 to 149. Both are on row 0.
\<close>

lemma example_labels:
  "drawAnnotations (exScale (Some 0, Some 1000))
     [exRow 110 ''sverdlovsk'' True, exRow 35 ''Aum Shinri'' True]
   = [\<lparr>x1 = - 4, x2 = 74, level = 0\<rparr>, \<lparr>x1 = 71, x2 = 149, level = 0\<rparr>]"
  by (simp add: drawAnnotations_def placeLabel_def exScale_def exRow_def labelText_def
      labelPadding_def findLevel.simps collides_def toNumber_def Let_def)

theorem drawAnnotations_rows_witness:
  "(0 :: nat) < 1 \<and>
   1 < length (drawAnnotations (exScale (Some 0, Some 1000))
                 [exRow 110 ''sverdlovsk'' True, exRow 35 ''Aum Shinri'' True]) \<and>
   level (drawAnnotations (exScale (Some 0, Some 1000))
            [exRow 110 ''sverdlovsk'' True, exRow 35 ''Aum Shinri'' True] ! 0)
     = level (drawAnnotations (exScale (Some 0, Some 1000))
                [exRow 110 ''sverdlovsk'' True, exRow 35 ''Aum Shinri'' True] ! 1) \<and>
   (x2 (drawAnnotations (exScale (Some 0, Some 1000))
          [exRow 110 ''sverdlovsk'' True, exRow 35 ''Aum Shinri'' True] ! 1) - labelPadding
      < x1 (drawAnnotations (exScale (Some 0, Some 1000))
              [exRow 110 ''sverdlovsk'' True, exRow 35 ''Aum Shinri'' True] ! 0) \<or>
    x2 (drawAnnotations (exScale (Some 0, Some 1000))
          [exRow 110 ''sverdlovsk'' True, exRow 35 ''Aum Shinri'' True] ! 0)
      < x1 (drawAnnotations (exScale (Some 0, Some 1000))
              [exRow 110 ''sverdlovsk'' True, exRow 35 ''Aum Shinri'' True] ! 1) + labelPadding)"
proof -
  have hyp: "(0 :: nat) < 1 \<and>
     1 < length (drawAnnotations (exScale (Some 0, Some 1000))
                   [exRow 110 ''sverdlovsk'' True, exRow 35 ''Aum Shinri'' True])"
    and lev: "level (drawAnnotations (exScale (Some 0, Some 1000))
              [exRow 110 ''sverdlovsk'' True, exRow 35 ''Aum Shinri'' True] ! 0)
       = level (drawAnnotations (exScale (Some 0, Some 1000))
                  [exRow 110 ''sverdlovsk'' True, exRow 35 ''Aum Shinri'' True] ! 1)"
    by (simp_all add: example_labels)
  from drawAnnotations_rows [of "exScale (Some 0, Some 1000)"
      "[exRow 110 ''sverdlovsk'' True, exRow 35 ''Aum Shinri'' True]", rule_format, OF hyp lev]
    hyp lev
  show ?thesis by blast
qed

text \<open>
  Claim C6 as stated fails on the same two labels: they share row 0, and their padded
  extents, -4 to 74 and 71 to 149, overlap from 71 to 74.
\<close>

theorem drawAnnotations_padded_overlap_counterexample:
  "drawAnnotations (exScale (Some 0, Some 1000))
     [exRow 35 ''Aum Shinri'' True, exRow 110 ''sverdlovsk'' True]
   = [\<lparr>x1 = - 4, x2 = 74, level = 0\<rparr>, \<lparr>x1 = 71, x2 = 149, level = 0\<rparr>] \<and>
   (71 :: real) \<le> 74 \<and> (- 4 :: real) \<le> 149"
  by (simp add: drawAnnotations_def placeLabel_def exScale_def exRow_def labelText_def
      labelPadding_def findLevel.simps collides_def toNumber_def Let_def)

section \<open>The example states\<close>

lemma exZoomedIn_eq:
  "exZoomedIn =
     \<lparr>rawData = exRows, filteredData = exRows, keyEvents = [exRow 4320000000 ''sverdlovsk'' True],
      currentXScale = Some (Some 3024000000, Some 5616000000),
      FULL_EXTENT = Some (DateObj (Some 0), DateObj (Some 8640000000)),
      didInitialFit = True,
      selectedCats = {''biological'', ''chemical'', ''multi'', ''key''}\<rparr>"
  by (simp add: exZoomedIn_def exLoaded_eq)

lemma exSearched_eq:
  "exSearched =
     \<lparr>rawData = exRows, filteredData = [exRow 4320000000 ''sverdlovsk'' True],
      keyEvents = [exRow 4320000000 ''sverdlovsk'' True],
      currentXScale = Some (Some 4320000000, Some 4320000000),
      FULL_EXTENT = Some (DateObj (Some 0), DateObj (Some 8640000000)),
      didInitialFit = True,
      selectedCats = {''biological'', ''chemical'', ''multi'', ''key''}\<rparr>"
  unfolding exSearched_def exLoaded_eq
  by (simp add: updateChart_def exControls_def
      exRows_def exRow_def rowMatch_def categoryKeys_def optionCount_def
      readSelectedTopics_def getSelectedValues_def drawChart_def domainOf_def toNumber_def
      newDate_def trunc_def Let_def)

section \<open>The wheel\<close>

text \<open>
  In the script with the clamped domain, for a wheel event with positive \<open>deltaY\<close> the
  two numbers the handler turns into the proposed window are \<open>1.1\<close> times the current
  span apart, for negative \<open>deltaY\<close> \<open>0.9\<close> times, whatever the anchor; the two Dates made
  of them, which is what \<open>clampDomain\<close> receives, are that far apart up to the truncation
  to whole milliseconds.
\<close>

lemma wheel_factor:
  "(deltaY > 0 \<longrightarrow>
      (\<exists>p q. wheelProposal (Some a) (Some d0) (Some d1) deltaY = (Some p, Some q) \<and>
         q - p = 1.1 * (d1 - d0) \<and>
         \<bar>real_of_int (trunc q - trunc p) - 1.1 * (d1 - d0)\<bar> < 2)) \<and>
   (deltaY < 0 \<longrightarrow>
      (\<exists>p q. wheelProposal (Some a) (Some d0) (Some d1) deltaY = (Some p, Some q) \<and>
         q - p = 0.9 * (d1 - d0) \<and>
         \<bar>real_of_int (trunc q - trunc p) - 0.9 * (d1 - d0)\<bar> < 2))"
proof -
  have close: "\<bar>real_of_int (trunc q - trunc p) - (q - p)\<bar> < 2" for p q :: real
    using trunc_lower [of p] trunc_upper [of p] trunc_lower [of q] trunc_upper [of q]
    by (simp add: abs_less_iff)
  have up: "deltaY > 0 \<Longrightarrow>
      wheelProposal (Some a) (Some d0) (Some d1) deltaY
        = (Some (a - (a - d0) * 1.1), Some (a + (d1 - a) * 1.1))"
    by (simp add: wheelProposal_def wheelFactor_def)
  have down: "deltaY < 0 \<Longrightarrow>
      wheelProposal (Some a) (Some d0) (Some d1) deltaY
        = (Some (a - (a - d0) * 0.9), Some (a + (d1 - a) * 0.9))"
    by (simp add: wheelProposal_def wheelFactor_def)
  have e1: "(a + (d1 - a) * 1.1) - (a - (a - d0) * 1.1) = 1.1 * (d1 - d0)"
    by (simp add: field_simps)
  have e2: "(a + (d1 - a) * 0.9) - (a - (a - d0) * 0.9) = 0.9 * (d1 - d0)"
    by (simp add: field_simps)
  show ?thesis
    using up down close [of "a + (d1 - a) * 1.1" "a - (a - d0) * 1.1"]
      close [of "a + (d1 - a) * 0.9" "a - (a - d0) * 0.9"] e1 e2
    by (metis (no_types, lifting))
qed

text \<open>A domain from 0 to 1000 with the pointer at 400, wheel down and wheel up.\<close>

lemma wheel_factor_example:
  "(100 :: real) > 0 \<and>
   wheelProposal (Some 400) (Some 0) (Some 1000) 100 = (Some (- 40), Some 1060) \<and>
   (\<exists>p q. wheelProposal (Some 400) (Some 0) (Some 1000) 100 = (Some p, Some q) \<and>
      q - p = 1.1 * (1000 - 0)) \<and>
   (- 100 :: real) < 0 \<and>
   wheelProposal (Some 400) (Some 0) (Some 1000) (- 100) = (Some 40, Some 940) \<and>
   (\<exists>p q. wheelProposal (Some 400) (Some 0) (Some 1000) (- 100) = (Some p, Some q) \<and>
      q - p = 0.9 * (1000 - 0))"
proof -
  have a: "wheelProposal (Some 400) (Some 0) (Some 1000) 100 = (Some (- 40), Some 1060)"
    and b: "wheelProposal (Some 400) (Some 0) (Some 1000) (- 100) = (Some 40, Some 940)"
    by (simp_all add: wheelProposal_def wheelFactor_def)
  have "\<exists>p q. wheelProposal (Some 400) (Some 0) (Some 1000) 100 = (Some p, Some q) \<and>
      q - p = 1.1 * (1000 - 0)"
    using wheel_factor [of 100 400 0 1000] by auto
  moreover have "\<exists>p q. wheelProposal (Some 400) (Some 0) (Some 1000) (- 100) = (Some p, Some q) \<and>
      q - p = 0.9 * (1000 - 0)"
    using wheel_factor [of "- 100" 400 0 1000] by auto
  ultimately show ?thesis using a b by simp
qed

text \<open>
  Claim C3. The older script picks the same factor, \<open>1.1\<close> for positive \<open>deltaY\<close> and
  \<open>0.9\<close> for negative, and notes that wheel-down zooms out, but then divides the span by
  it. With the thirty days 35 to 65 on screen, all three example rows shown and the
  pointer over day 50, a wheel event with positive \<open>deltaY\<close> proposes and applies a window
  of \<open>30 / 1.1\<close> days, which is shorter, and one with negative \<open>deltaY\<close> a window of
  \<open>30 / 0.9\<close> days, which is longer; neither is \<open>1.1\<close> or \<open>0.9\<close> times thirty days.
\<close>

theorem wheel_app_divides:
  "currentXScale exZoomedIn = Some (Some 3024000000, Some 5616000000) \<and>
   filteredData exZoomedIn = exRows \<and>
   wheel_app (\<lambda>domn px. Some 4320000000) exZoomedIn 400 100
     = Some (Some 3141818181, Some 5498181818) \<and>
   wheel_app (\<lambda>domn px. Some 4320000000) exZoomedIn 400 (- 100)
     = Some (Some 2880000000, Some 5760000000) \<and>
   5498181818 - 3141818181 < (5616000000 - 3024000000 :: int) \<and>
   5760000000 - 2880000000 > (5616000000 - 3024000000 :: int)"
proof -
  have down: "wheel_app (\<lambda>domn px. Some 4320000000) exZoomedIn 400 100
     = Some (Some 3141818181, Some 5498181818)"
    unfolding exZoomedIn_eq wheel_app_def
    by (simp add: exRows_def exRow_def toNumber_def newDate_def trunc_def jsGt_def)
  have up: "wheel_app (\<lambda>domn px. Some 4320000000) exZoomedIn 400 (- 100)
     = Some (Some 2880000000, Some 5760000000)"
    unfolding exZoomedIn_eq wheel_app_def
    by (simp add: exRows_def exRow_def toNumber_def newDate_def trunc_def jsGt_def)
  show ?thesis using down up by (simp add: exZoomedIn_eq)
qed

section \<open>The zoom buttons\<close>

lemma zoomWindow_eval:
  assumes "clampExtent st = (DateObj (Some mn), DateObj (Some mx))" "f \<noteq> 0"
  shows "zoomWindow st (Some d0, Some d1) (Some f) None
         = (Some (fst (zoomed mn mx d0 d1 f)), Some (snd (zoomed mn mx d0 d1 f)))"
  using assms
  by (simp add: zoomWindow_def zoomed_def toNumber_def newDate_def jsGt_def Let_def)

lemma zoomBy_app_short_example: "zoomBy_app exSearched (Some 1.25) None = None"
  unfolding exSearched_eq zoomBy_app_def zoomWindow_app_def
  by (simp add: exRows_def exRow_def toNumber_def newDate_def trunc_def jsGt_def) (simp add: Let_def)

lemma zoomWindow_app_short_example:
  "zoomWindow_app exSearched (Some 4320000000, Some 4320000000) (Some 1.25) None
     = (Some 4320000000, Some 4320000000)"
  unfolding exSearched_eq zoomWindow_app_def
  by (simp add: exRows_def exRow_def toNumber_def newDate_def trunc_def jsGt_def) (simp add: Let_def)

text \<open>
  Claim C10. Whenever the window \<open>zoomBy\<close> arrives at after its clamping steps is
  shorter than the minimum zoom span of the script, \<open>zoomBy\<close> returns without applying
  it and the state, with its domain, is what it was: the window is not widened to the
  minimum. The minimum is \<open>MIN_SPAN_MS\<close>, thirty days, in the script with the clamped
  domain, and one day in the older script.
\<close>

theorem zoomBy_rejects_short:
  assumes "currentXScale st = Some domn"
  shows "(jsLt (jsSub (toNumber (snd (zoomWindow st domn factor anchorDate)))
                      (toNumber (fst (zoomWindow st domn factor anchorDate))))
               (Some MIN_SPAN_MS) \<longrightarrow>
            zoomBy st factor anchorDate = None \<and>
            applyCall st (zoomBy st factor anchorDate) = st) \<and>
         (jsLt (jsSub (toNumber (snd (zoomWindow_app st domn factor anchorDate)))
                      (toNumber (fst (zoomWindow_app st domn factor anchorDate))))
               (Some (1000 * 60 * 60 * 24)) \<longrightarrow>
            zoomBy_app st factor anchorDate = None)"
proof -
  have new: "zoomBy st factor anchorDate = None \<and>
             applyCall st (zoomBy st factor anchorDate) = st"
    if "jsLt (jsSub (toNumber (snd (zoomWindow st domn factor anchorDate)))
                    (toNumber (fst (zoomWindow st domn factor anchorDate))))
             (Some MIN_SPAN_MS)"
    using assms that
    by (cases "zoomWindow st domn factor anchorDate") (simp add: zoomBy_def applyCall_def)
  have old: "zoomBy_app st factor anchorDate = None"
    if "jsLt (jsSub (toNumber (snd (zoomWindow_app st domn factor anchorDate)))
                    (toNumber (fst (zoomWindow_app st domn factor anchorDate))))
             (Some (1000 * 60 * 60 * 24))"
    using assms that
    by (cases "zoomWindow_app st domn factor anchorDate") (simp add: zoomBy_app_def)
  show ?thesis using new old by blast
qed

text \<open>
  Zooming in by \<open>1.25\<close> from the thirty days 35 to 65 in the script with the clamped
  domain: the window would be the twenty-four days 38 to 62, and the call is rejected.
  In the older script, zooming in on the single row that the search has left: the window
  is one instant, and the call is rejected.
\<close>

theorem zoomBy_rejects_short_witness:
  "currentXScale exZoomedIn = Some (Some 3024000000, Some 5616000000) \<and>
   zoomWindow exZoomedIn (Some 3024000000, Some 5616000000) (Some 1.25) None
     = (Some 3283200000, Some 5356800000) \<and>
   jsLt (jsSub (toNumber (Some 5356800000)) (toNumber (Some 3283200000))) (Some MIN_SPAN_MS) \<and>
   zoomBy exZoomedIn (Some 1.25) None = None \<and>
   applyCall exZoomedIn (zoomBy exZoomedIn (Some 1.25) None) = exZoomedIn \<and>
   currentXScale exSearched = Some (Some 4320000000, Some 4320000000) \<and>
   zoomWindow_app exSearched (Some 4320000000, Some 4320000000) (Some 1.25) None
     = (Some 4320000000, Some 4320000000) \<and>
   jsLt (jsSub (toNumber (Some 4320000000)) (toNumber (Some 4320000000)))
     (Some (1000 * 60 * 60 * 24)) \<and>
   zoomBy_app exSearched (Some 1.25) None = None"
proof -
  have dm: "currentXScale exZoomedIn = Some (Some 3024000000, Some 5616000000)"
    by (simp add: exZoomedIn_def)
  have ext: "clampExtent exZoomedIn = (DateObj (Some 0), DateObj (Some 8640000000))"
    by (simp add: exZoomedIn_def exLoaded_eq clampExtent_def)
  have win: "zoomWindow exZoomedIn (Some 3024000000, Some 5616000000) (Some 1.25) None
     = (Some 3283200000, Some 5356800000)"
    using zoomWindow_eval [OF ext, of "1.25" 3024000000 5616000000]
    by (simp add: zoomed_def trunc_def Let_def)
  have short: "jsLt (jsSub (toNumber (Some 5356800000)) (toNumber (Some 3283200000)))
                 (Some MIN_SPAN_MS)"
    by (simp add: toNumber_def MIN_SPAN_MS_def)
  have dm': "currentXScale exSearched = Some (Some 4320000000, Some 4320000000)"
    by (simp add: exSearched_eq)
  have short': "jsLt (jsSub (toNumber (Some 4320000000)) (toNumber (Some 4320000000)))
                 (Some (1000 * 60 * 60 * 24))"
    by (simp add: toNumber_def)
  have new: "zoomBy exZoomedIn (Some 1.25) None = None \<and>
             applyCall exZoomedIn (zoomBy exZoomedIn (Some 1.25) None) = exZoomedIn"
    using zoomBy_rejects_short [OF dm, of "Some 1.25" None, THEN conjunct1] win short
    by (simp add: applyCall_def)
  have old: "zoomBy_app exSearched (Some 1.25) None = None"
    using zoomBy_rejects_short [OF dm', of "Some 1.25" None, THEN conjunct2]
      zoomWindow_app_short_example short'
    by simp
  show ?thesis
    using new old dm dm' win short short' zoomWindow_app_short_example
    by (simp add: applyCall_def)
qed

text \<open>
  The older script, zooming in by \<open>1.25\<close> from the thirty days 35 to 65 with all three
  example rows shown: the window is the twenty-four days 38 to 62, shorter than thirty
  days, and it is applied.
\<close>

theorem zoomBy_app_short_of_thirty_days_counterexample:
  "currentXScale exZoomedIn = Some (Some 3024000000, Some 5616000000) \<and>
   filteredData exZoomedIn = exRows \<and>
   zoomBy_app exZoomedIn (Some 1.25) None = Some (Some 3283200000, Some 5356800000) \<and>
   real_of_int (5356800000 - 3283200000) < MIN_SPAN_MS"
proof -
  have "zoomBy_app exZoomedIn (Some 1.25) None = Some (Some 3283200000, Some 5356800000)"
    unfolding exZoomedIn_eq zoomBy_app_def zoomWindow_app_def
    by (simp add: exRows_def exRow_def toNumber_def newDate_def trunc_def jsGt_def)
  then show ?thesis by (simp add: exZoomedIn_eq MIN_SPAN_MS_def)
qed

section \<open>Zooming out\<close>

text \<open>
  One click on the zoom-out button from a domain of at least \<open>MIN_SPAN_MS\<close>: the result is
  the full extent, or a strictly longer window (which is at most three milliseconds
  longer than the full extent).
\<close>

lemma zoomed_out:
  assumes S: "MIN_SPAN_MS \<le> real_of_int (d1 - d0)"
  shows "zoomed mn mx d0 d1 0.8 = (mn, mx) \<or>
         (d1 - d0 < snd (zoomed mn mx d0 d1 0.8) - fst (zoomed mn mx d0 d1 0.8) \<and>
          snd (zoomed mn mx d0 d1 0.8) - fst (zoomed mn mx d0 d1 0.8) < mx - mn + 4)"
proof -
  define spanR where "spanR = real_of_int (d1 - d0) / 0.8"
  define c where "c = (real_of_int d0 + real_of_int d1) / 2"
  define ns where "ns = trunc (c - spanR / 2)"
  define ne where "ne = trunc (c + spanR / 2)"
  define el where "el = trunc (real_of_int mn + spanR)"
  define sr where "sr = trunc (real_of_int mx - spanR)"
  have big: "real_of_int (d1 - d0) + 4 < spanR"
    using S by (simp add: spanR_def MIN_SPAN_MS_def)
  note t = trunc_lower [of "c - spanR / 2"] trunc_upper [of "c - spanR / 2"]
    trunc_lower [of "c + spanR / 2"] trunc_upper [of "c + spanR / 2"]
    trunc_lower [of "real_of_int mn + spanR"] trunc_upper [of "real_of_int mn + spanR"]
    trunc_lower [of "real_of_int mx - spanR"] trunc_upper [of "real_of_int mx - spanR"]
  have z: "zoomed mn mx d0 d1 0.8 =
      (if real_of_int (mx - mn) < real_of_int (ne - ns) then (mn, mx)
       else if ns < mn then (if mx < el then (sr, mx) else (mn, el))
       else if mx < ne then (sr, mx) else (ns, ne))"
    by (simp add: zoomed_def spanR_def c_def ns_def ne_def el_def sr_def Let_def)
  have wide: "real_of_int (ne - ns) > spanR - 2" "real_of_int (ne - ns) < spanR + 2"
    using t(1-4) by (simp_all add: ns_def ne_def)
  have elb: "real_of_int (el - mn) > spanR - 1" "real_of_int (el - mn) < spanR + 1"
    using t(5,6) by (simp_all add: el_def)
  have srb: "real_of_int (mx - sr) > spanR - 1" "real_of_int (mx - sr) < spanR + 1"
    using t(7,8) by (simp_all add: sr_def)
  show ?thesis
  proof (cases "real_of_int (mx - mn) < real_of_int (ne - ns)")
    case True
    then show ?thesis unfolding z by simp
  next
    case False
    then have cap: "spanR - 2 < real_of_int (mx - mn)" using wide(1) by linarith
    have g1: "d1 - d0 < ne - ns \<and> ne - ns < mx - mn + 4" using wide big cap False by linarith
    have g2: "d1 - d0 < el - mn \<and> el - mn < mx - mn + 4" using elb big cap by linarith
    have g3: "d1 - d0 < mx - sr \<and> mx - sr < mx - mn + 4" using srb big cap by linarith
    show ?thesis unfolding z using False g1 g2 g3 by simp
  qed
qed

lemma zoomed_full:
  assumes "MIN_SPAN_MS \<le> real_of_int (mx - mn)"
  shows "zoomed mn mx mn mx 0.8 = (mn, mx)"
proof -
  define spanR where "spanR = real_of_int (mx - mn) / 0.8"
  define c where "c = (real_of_int mn + real_of_int mx) / 2"
  have big: "real_of_int (mx - mn) + 4 < spanR"
    using assms by (simp add: spanR_def MIN_SPAN_MS_def)
  have "real_of_int (trunc (c + spanR / 2) - trunc (c - spanR / 2)) > spanR - 2"
    using trunc_upper [of "c - spanR / 2"] trunc_lower [of "c + spanR / 2"] by simp
  then have "real_of_int (mx - mn) < real_of_int (trunc (c + spanR / 2) - trunc (c - spanR / 2))"
    using big by linarith
  then show ?thesis by (simp add: zoomed_def spanR_def c_def Let_def)
qed

lemma zoomBy_out_eval:
  assumes "zoomState st mn mx d0 d1"
  shows "zoomBy st (Some 0.8) None =
     (if real_of_int (snd (zoomed mn mx d0 d1 0.8) - fst (zoomed mn mx d0 d1 0.8)) < MIN_SPAN_MS
      then None
      else Some (Some (fst (zoomed mn mx d0 d1 0.8)), Some (snd (zoomed mn mx d0 d1 0.8)), True))"
proof -
  have ext: "clampExtent st = (DateObj (Some mn), DateObj (Some mx))"
    using assms by (simp add: zoomState_def clampExtent_def)
  show ?thesis
    using assms zoomWindow_eval [OF ext, of "0.8" d0 d1]
    by (simp add: zoomBy_def zoomState_def toNumber_def)
qed

lemma zoomOutStep_grows:
  assumes st: "zoomState st mn mx d0 d1"
    and M: "MIN_SPAN_MS \<le> real_of_int (mx - mn)" and S: "MIN_SPAN_MS \<le> real_of_int (d1 - d0)"
  shows "\<exists>a b. zoomState (zoomOutStep st) mn mx a b \<and>
           (a = mn \<and> b = mx \<or> d1 - d0 < b - a \<and> b - a < mx - mn + 4)"
proof -
  define a where "a = fst (zoomed mn mx d0 d1 0.8)"
  define b where "b = snd (zoomed mn mx d0 d1 0.8)"
  have cases: "a = mn \<and> b = mx \<or> d1 - d0 < b - a \<and> b - a < mx - mn + 4"
    using zoomed_out [OF S, of mn mx] by (auto simp: a_def b_def)
  then have "MIN_SPAN_MS \<le> real_of_int (b - a)" using M S by auto
  then have "zoomOutStep st = st\<lparr>currentXScale := Some (Some a, Some b)\<rparr>"
    using zoomBy_out_eval [OF st] by (simp add: a_def b_def zoomOutStep_def applyCall_def)
  then have "zoomState (zoomOutStep st) mn mx a b" using st by (simp add: zoomState_def)
  with cases show ?thesis by blast
qed

lemma zoomOutStep_full:
  assumes st: "zoomState st mn mx mn mx" and M: "MIN_SPAN_MS \<le> real_of_int (mx - mn)"
  shows "zoomState (zoomOutStep st) mn mx mn mx"
  using st M zoomBy_out_eval [OF st] zoomed_full [OF M]
  by (simp add: zoomState_def zoomOutStep_def applyCall_def)

lemma zoomOut_reaches_full:
  assumes "zoomState st mn mx d0 d1" "MIN_SPAN_MS \<le> real_of_int (mx - mn)"
    "MIN_SPAN_MS \<le> real_of_int (d1 - d0)"
  shows "\<exists>n. zoomState ((zoomOutStep ^^ n) st) mn mx mn mx"
  using assms
proof (induction "nat (mx - mn + 4 - (d1 - d0))" arbitrary: st d0 d1 rule: less_induct)
  case less
  obtain a b where ab: "zoomState (zoomOutStep st) mn mx a b"
    "a = mn \<and> b = mx \<or> d1 - d0 < b - a \<and> b - a < mx - mn + 4"
    using zoomOutStep_grows [OF less.prems] by blast
  show ?case
  proof (cases "a = mn \<and> b = mx")
    case True
    then have "zoomState ((zoomOutStep ^^ 1) st) mn mx mn mx" using ab(1) by simp
    then show ?thesis by blast
  next
    case False
    then have grow: "d1 - d0 < b - a" "b - a < mx - mn + 4" using ab(2) by auto
    then have "nat (mx - mn + 4 - (b - a)) < nat (mx - mn + 4 - (d1 - d0))" by linarith
    moreover have "MIN_SPAN_MS \<le> real_of_int (b - a)" using grow(1) less.prems(3) by linarith
    ultimately obtain n where "zoomState ((zoomOutStep ^^ n) (zoomOutStep st)) mn mx mn mx"
      using less.hyps [OF _ ab(1) less.prems(2)] by blast
    then have "zoomState ((zoomOutStep ^^ Suc n) st) mn mx mn mx"
      by (simp add: funpow_swap1)
    then show ?thesis by blast
  qed
qed

lemma zoomOut_stays_full:
  assumes "zoomState st mn mx mn mx" "MIN_SPAN_MS \<le> real_of_int (mx - mn)"
  shows "zoomState ((zoomOutStep ^^ k) st) mn mx mn mx"
  using assms by (induction k) (simp_all add: zoomOutStep_full)

lemma zoomOut_converges:
  assumes "zoomState st mn mx d0 d1" "MIN_SPAN_MS \<le> real_of_int (mx - mn)"
    "MIN_SPAN_MS \<le> real_of_int (d1 - d0)"
  shows "\<exists>n. \<forall>m \<ge> n. currentXScale ((zoomOutStep ^^ m) st) = Some (Some mn, Some mx)"
proof -
  obtain n where n: "zoomState ((zoomOutStep ^^ n) st) mn mx mn mx"
    using zoomOut_reaches_full [OF assms] by blast
  have "currentXScale ((zoomOutStep ^^ m) st) = Some (Some mn, Some mx)" if "n \<le> m" for m
  proof -
    have "(zoomOutStep ^^ m) st = (zoomOutStep ^^ (m - n)) ((zoomOutStep ^^ n) st)"
      using that by (metis funpow_add le_add_diff_inverse2 o_apply)
    then show ?thesis
      using zoomOut_stays_full [OF n assms(2), of "m - n"] by (simp add: zoomState_def)
  qed
  then show ?thesis by blast
qed

section \<open>The full extent as the bound of every gesture\<close>

text \<open>
  The bounds of the script with the clamped domain. \<open>FULL_EXTENT\<close> is set at load to the
  extent of all rows, and neither a redraw nor \<open>updateChart\<close> changes it. In a state where
  it is set,
  \<^item> every handler clamps against it: the extent the handlers read is the extent of
    \<open>rawData\<close>, and the call each handler makes is the same whatever rows pass the filter
    (for \<open>zoomBy\<close>: as long as some row passes, since it returns at once for none);
  \<^item> clicking the zoom-out button again and again, with some row shown, from a domain that
    is at least \<open>MIN_SPAN_MS\<close> long in a data set that is at least that long, reaches the
    full extent after finitely many clicks and stays there.
\<close>

lemma full_extent_bounds:
  assumes loaded: "FULL_EXTENT st = Some (d3_extent (rawData st))"
  shows "FULL_EXTENT (loadData rows st0) = Some (d3_extent rows) \<and>
         rawData (loadData rows st0) = rows \<and>
         FULL_EXTENT (applyCall st call) = FULL_EXTENT st \<and>
         FULL_EXTENT (updateChart toLowerCase trim ui st) = FULL_EXTENT st \<and>
         clampExtent (st\<lparr>filteredData := fd\<rparr>) = d3_extent (rawData st) \<and>
         touchExtent (st\<lparr>filteredData := fd\<rparr>) = d3_extent (rawData st) \<and>
         wheel parse invert (st\<lparr>filteredData := fd\<rparr>) mouseX deltaY
           = wheel parse invert st mouseX deltaY \<and>
         dragPan parse invert (st\<lparr>filteredData := fd\<rparr>) dxPx = dragPan parse invert st dxPx \<and>
         touchPan parse invert (st\<lparr>filteredData := fd\<rparr>) dxPx = touchPan parse invert st dxPx \<and>
         pinchZoom parse invert (st\<lparr>filteredData := fd\<rparr>) baseDomain pinchStartDist distv localX
           = pinchZoom parse invert st baseDomain pinchStartDist distv localX \<and>
         (fd \<noteq> [] \<and> filteredData st \<noteq> [] \<longrightarrow>
            zoomBy (st\<lparr>filteredData := fd\<rparr>) factor anchorDate = zoomBy st factor anchorDate) \<and>
         (\<forall>mn mx d0 d1.
            d3_extent (rawData st) = (DateObj (Some mn), DateObj (Some mx)) \<and>
            filteredData st \<noteq> [] \<and> currentXScale st = Some (Some d0, Some d1) \<and>
            MIN_SPAN_MS \<le> real_of_int (mx - mn) \<and> MIN_SPAN_MS \<le> real_of_int (d1 - d0) \<longrightarrow>
            (\<exists>n. \<forall>m \<ge> n. currentXScale ((zoomOutStep ^^ m) st) = Some (Some mn, Some mx)))"
proof -
  have load: "FULL_EXTENT (loadData rows st0) = Some (d3_extent rows) \<and>
         rawData (loadData rows st0) = rows"
    by (simp add: loadData_def)
  have keep: "FULL_EXTENT (applyCall st call) = FULL_EXTENT st"
    by (simp add: applyCall_def split: option.splits prod.splits)
  have draw: "FULL_EXTENT (drawChart s data) = FULL_EXTENT s" for s data
    by (simp add: drawChart_def Let_def split: option.splits)
  have upd: "FULL_EXTENT (updateChart toLowerCase trim ui st) = FULL_EXTENT st"
    by (simp add: updateChart_def draw Let_def)
  have ce: "clampExtent (st\<lparr>filteredData := fd\<rparr>) = d3_extent (rawData st)"
    and te: "touchExtent (st\<lparr>filteredData := fd\<rparr>) = d3_extent (rawData st)"
    using loaded by (simp_all add: clampExtent_def touchExtent_def)
  have ce': "clampExtent (st\<lparr>filteredData := fd\<rparr>) = clampExtent st"
    and te': "touchExtent (st\<lparr>filteredData := fd\<rparr>) = touchExtent st"
    using loaded by (simp_all add: clampExtent_def touchExtent_def)
  have dm: "currentXScale (st\<lparr>filteredData := fd\<rparr>) = currentXScale st"
    by simp
  have w: "wheel parse invert (st\<lparr>filteredData := fd\<rparr>) mouseX deltaY
           = wheel parse invert st mouseX deltaY"
    unfolding wheel_def ce' dm by (rule refl)
  have dp: "dragPan parse invert (st\<lparr>filteredData := fd\<rparr>) dxPx = dragPan parse invert st dxPx"
    unfolding dragPan_def ce' dm by (rule refl)
  have tp: "touchPan parse invert (st\<lparr>filteredData := fd\<rparr>) dxPx = touchPan parse invert st dxPx"
    unfolding touchPan_def te' dm by (rule refl)
  have pz: "pinchZoom parse invert (st\<lparr>filteredData := fd\<rparr>) baseDomain pinchStartDist distv localX
           = pinchZoom parse invert st baseDomain pinchStartDist distv localX"
    unfolding pinchZoom_def te' dm by (rule refl)
  have zw: "zoomWindow (st\<lparr>filteredData := fd\<rparr>) domn factor anchorDate
            = zoomWindow st domn factor anchorDate" for domn
    unfolding zoomWindow_def ce' by (rule refl)
  have zb: "fd \<noteq> [] \<and> filteredData st \<noteq> [] \<longrightarrow>
            zoomBy (st\<lparr>filteredData := fd\<rparr>) factor anchorDate = zoomBy st factor anchorDate"
    by (cases "currentXScale st") (simp_all add: zoomBy_def zw)
  have conv: "\<forall>mn mx d0 d1.
            d3_extent (rawData st) = (DateObj (Some mn), DateObj (Some mx)) \<and>
            filteredData st \<noteq> [] \<and> currentXScale st = Some (Some d0, Some d1) \<and>
            MIN_SPAN_MS \<le> real_of_int (mx - mn) \<and> MIN_SPAN_MS \<le> real_of_int (d1 - d0) \<longrightarrow>
            (\<exists>n. \<forall>m \<ge> n. currentXScale ((zoomOutStep ^^ m) st) = Some (Some mn, Some mx))"
  proof (intro allI impI)
    fix mn mx d0 d1
    assume h: "d3_extent (rawData st) = (DateObj (Some mn), DateObj (Some mx)) \<and>
            filteredData st \<noteq> [] \<and> currentXScale st = Some (Some d0, Some d1) \<and>
            MIN_SPAN_MS \<le> real_of_int (mx - mn) \<and> MIN_SPAN_MS \<le> real_of_int (d1 - d0)"
    then have zs: "zoomState st mn mx d0 d1" using loaded by (simp add: zoomState_def)
    from h have M: "MIN_SPAN_MS \<le> real_of_int (mx - mn)"
      and S: "MIN_SPAN_MS \<le> real_of_int (d1 - d0)" by blast+
    show "\<exists>n. \<forall>m \<ge> n. currentXScale ((zoomOutStep ^^ m) st) = Some (Some mn, Some mx)"
      by (rule zoomOut_converges [OF zs M S])
  qed
  show ?thesis using load keep upd ce te w dp tp pz zb conv by blast
qed

text \<open>
  The example chart, zoomed to the thirty days 35 to 65 of its hundred days: the
  hypotheses hold, and repeated zooming out ends at the full extent. Six clicks do it.
\<close>

lemma example_zoom_out:
  "currentXScale ((zoomOutStep ^^ 5) exZoomedIn) = Some (Some 364921875, Some 8275078125) \<and>
   currentXScale ((zoomOutStep ^^ 6) exZoomedIn) = Some (Some 0, Some 8640000000)"
  by (simp add: eval_nat_numeral zoomOutStep_def zoomBy_def zoomWindow_def applyCall_def
      exZoomedIn_def exLoaded_eq clampExtent_def exRows_def exRow_def MIN_SPAN_MS_def
      toNumber_def newDate_def trunc_def jsGt_def Let_def)

lemma full_extent_bounds_example:
  "FULL_EXTENT exZoomedIn = Some (d3_extent (rawData exZoomedIn)) \<and>
   d3_extent (rawData exZoomedIn) = (DateObj (Some 0), DateObj (Some 8640000000)) \<and>
   filteredData exZoomedIn \<noteq> [] \<and>
   currentXScale exZoomedIn = Some (Some 3024000000, Some 5616000000) \<and>
   MIN_SPAN_MS \<le> real_of_int (8640000000 - 0) \<and>
   MIN_SPAN_MS \<le> real_of_int (5616000000 - 3024000000) \<and>
   zoomBy (exZoomedIn\<lparr>filteredData := [exRow 4320000000 ''sverdlovsk'' True]\<rparr>) (Some 0.8) None
     = zoomBy exZoomedIn (Some 0.8) None \<and>
   (\<exists>n. \<forall>m \<ge> n. currentXScale ((zoomOutStep ^^ m) exZoomedIn)
                   = Some (Some 0, Some 8640000000))"
proof -
  have loaded: "FULL_EXTENT exZoomedIn = Some (d3_extent (rawData exZoomedIn))"
    and ext: "d3_extent (rawData exZoomedIn) = (DateObj (Some 0), DateObj (Some 8640000000))"
    and fd: "filteredData exZoomedIn \<noteq> []"
    and dm: "currentXScale exZoomedIn = Some (Some 3024000000, Some 5616000000)"
    by (simp_all add: exZoomedIn_def exLoaded_eq exRows_def exRow_def)
  have long: "MIN_SPAN_MS \<le> real_of_int (8640000000 - 0)"
    "MIN_SPAN_MS \<le> real_of_int (5616000000 - 3024000000)"
    by (simp_all add: MIN_SPAN_MS_def)
  note inst = full_extent_bounds [OF loaded,
      where fd = "[exRow 4320000000 ''sverdlovsk'' True]" and factor = "Some 0.8"
        and anchorDate = None]
  have same: "zoomBy (exZoomedIn\<lparr>filteredData := [exRow 4320000000 ''sverdlovsk'' True]\<rparr>)
                (Some 0.8) None = zoomBy exZoomedIn (Some 0.8) None"
    using inst fd by simp
  have "\<exists>n. \<forall>m \<ge> n. currentXScale ((zoomOutStep ^^ m) exZoomedIn)
                   = Some (Some 0, Some 8640000000)"
    using inst ext fd dm long by blast
  then show ?thesis using loaded ext fd dm long same by blast
qed

text \<open>
  Claim C2, where the domain is shorter than \<open>MIN_SPAN_MS\<close>. After the search box has
  narrowed the example chart to its one row of day 50, the chart is redrawn with the
  domain from day 50 to day 50. The bound is still the full extent, day 0 to day 100,
  but \<open>zoomBy(0.8)\<close> returns without a redraw: the check that keeps the user from zooming
  in too far rejects the window, which is still one instant. Zooming out leaves the
  domain at the extent of the filtered row and never reaches the full extent.
\<close>

theorem zoom_out_stuck_counterexample:
  "filteredData exSearched = [exRow 4320000000 ''sverdlovsk'' True] \<and>
   currentXScale exSearched = Some (Some 4320000000, Some 4320000000) \<and>
   FULL_EXTENT exSearched = Some (DateObj (Some 0), DateObj (Some 8640000000)) \<and>
   zoomBy exSearched (Some 0.8) None = None \<and>
   zoomOutStep exSearched = exSearched"
  by (simp add: exSearched_def updateChart_def exLoaded_eq exControls_def
      exRows_def exRow_def rowMatch_def categoryKeys_def optionCount_def
      readSelectedTopics_def getSelectedValues_def drawChart_def domainOf_def
      zoomOutStep_def zoomBy_def zoomWindow_def applyCall_def clampExtent_def MIN_SPAN_MS_def
      toNumber_def newDate_def trunc_def jsGt_def Let_def)

text \<open>
  The wheel does no better there: the window it proposes is one instant, \<open>clampDomain\<close>
  widens it to \<open>MIN_SPAN_MS\<close>, and the handler returns for a window that is not longer
  than that.
\<close>

lemma example_wheel_stuck:
  "wheel parse exInvert exSearched 0 100 = None"
  by (simp add: wheel_def wheelProposal_def wheelFactor_def exInvert_def exSearched_eq
      clampDomain_def keepInside_def safetySwap_def enforceMinimum_def jsGe_def
      clampExtent_def MIN_SPAN_MS_def toNumber_def newDate_def trunc_def jsGt_def Let_def)

text \<open>
  The drag and the pinch get out of the same state: \<open>clampDomain\<close> widens the instant to
  the thirty days around it, day 35 to day 65, and the handlers apply that. (On a domain
  of one instant the scale inverts every pixel to that instant.)
\<close>

lemma example_drag_widens:
  "dragPan parse (\<lambda>domn px. fst domn) exSearched dxPx
     = Some (Some 3024000000, Some 5616000000, False)"
  unfolding exSearched_eq dragPan_def panWindow_def clampExtent_def
  by (simp add: clampDomain_def keepInside_def safetySwap_def enforceMinimum_def MIN_SPAN_MS_def
      jsGe_def jsGt_def toNumber_def newDate_def trunc_def)

lemma example_pinch_widens:
  "pinchZoom parse (\<lambda>domn px. fst domn) exSearched (Some 4320000000, Some 4320000000) 100 150 40
     = Some (Some 3024000000, Some 5616000000, True)"
  unfolding exSearched_eq pinchZoom_def touchExtent_def
  by (simp add: clampDomain_def keepInside_def safetySwap_def enforceMinimum_def MIN_SPAN_MS_def
      jsGe_def jsGt_def jsAbs_def toNumber_def newDate_def trunc_def)

text \<open>
  The older script clamps to the extent of the filtered rows. With the first two example
  rows shown, from day 0 to day 50, zooming out with the button or the wheel leaves the
  domain there, though the data runs to day 100.
\<close>

lemma zoomWindow_app_filtered_extent_example:
  "zoomWindow_app
     (exLoaded\<lparr>filteredData := [exRow 0 ''first report'' False,
                                  exRow 4320000000 ''sverdlovsk'' True],
               currentXScale := Some (Some 0, Some 4320000000)\<rparr>)
     (Some 0, Some 4320000000) (Some 0.8) None
     = (Some 0, Some 4320000000)"
  unfolding zoomWindow_app_def
  by (simp add: exRow_def toNumber_def newDate_def trunc_def jsGt_def)

lemma app_filtered_extent_example:
  "zoomBy_app
     (exLoaded\<lparr>filteredData := [exRow 0 ''first report'' False,
                                  exRow 4320000000 ''sverdlovsk'' True],
               currentXScale := Some (Some 0, Some 4320000000)\<rparr>) (Some 0.8) None
     = Some (Some 0, Some 4320000000) \<and>
   wheel_app (\<lambda>domn px. Some 2160000000)
     (exLoaded\<lparr>filteredData := [exRow 0 ''first report'' False,
                                  exRow 4320000000 ''sverdlovsk'' True],
               currentXScale := Some (Some 0, Some 4320000000)\<rparr>) 400 (- 100)
     = Some (Some 0, Some 4320000000)"
proof -
  have "zoomBy_app
     (exLoaded\<lparr>filteredData := [exRow 0 ''first report'' False,
                                  exRow 4320000000 ''sverdlovsk'' True],
               currentXScale := Some (Some 0, Some 4320000000)\<rparr>) (Some 0.8) None
     = Some (Some 0, Some 4320000000)"
    using zoomWindow_app_filtered_extent_example by (simp add: zoomBy_app_def toNumber_def)
  moreover have "wheel_app (\<lambda>domn px. Some 2160000000)
     (exLoaded\<lparr>filteredData := [exRow 0 ''first report'' False,
                                  exRow 4320000000 ''sverdlovsk'' True],
               currentXScale := Some (Some 0, Some 4320000000)\<rparr>) 400 (- 100)
     = Some (Some 0, Some 4320000000)"
    unfolding wheel_app_def
    by (simp add: exRow_def toNumber_def newDate_def trunc_def jsGt_def)
  ultimately show ?thesis by (rule conjI)
qed

section \<open>Zooming out at the full extent\<close>

text \<open>
  At the full extent, a data set of at least \<open>MIN_SPAN_MS\<close>, the zoom-out button asks for
  a redraw of the same domain with a repack.
\<close>

lemma zoomBy_full_extent:
  assumes "zoomState st mn mx mn mx" "MIN_SPAN_MS \<le> real_of_int (mx - mn)"
  shows "zoomBy st (Some 0.8) None = Some (Some mn, Some mx, True)"
  using assms zoomBy_out_eval [OF assms(1)] zoomed_full [OF assms(2)] by simp

text \<open>
  The wheel handler in the same state returns before any redraw when the wheel asks to
  zoom out, for every pointer position.
\<close>

lemma wheel_full_extent:
  assumes st: "zoomState st mn mx mn mx" and M: "MIN_SPAN_MS \<le> real_of_int (mx - mn)"
    and anchor: "invert (Some mn, Some mx) mouseX = Some t" and out: "deltaY > 0"
  shows "wheel parse invert st mouseX deltaY = None"
proof -
  define p where "p = real_of_int t - (real_of_int t - real_of_int mn) * 1.1"
  define q where "q = real_of_int t + (real_of_int mx - real_of_int t) * 1.1"
  have proposal: "wheelProposal (Some (real_of_int t)) (Some (real_of_int mn)) (Some (real_of_int mx)) deltaY
              = (Some p, Some q)"
    using out by (simp add: wheelProposal_def wheelFactor_def p_def q_def)
  have "q - p = 1.1 * real_of_int (mx - mn)" by (simp add: p_def q_def field_simps)
  then have "real_of_int (mx - mn) + 2 \<le> q - p" using M by (simp add: MIN_SPAN_MS_def)
  then have "real_of_int (mx - mn) < real_of_int (trunc q - trunc p)"
    using trunc_upper [of p] trunc_lower [of q] by simp
  then have wide: "mx - mn \<le> trunc q - trunc p" by linarith
  have ext: "clampExtent st = (DateObj (Some mn), DateObj (Some mx))"
    using st by (simp add: zoomState_def clampExtent_def)
  have clamp: "clampDomain parse (Some (trunc p), Some (trunc q)) (DateObj (Some mn), DateObj (Some mx))
               = (Some mn, Some mx)"
    using wide by (simp add: clampDomain_def jsGe_def toNumber_def)
  show ?thesis
    using st anchor out proposal clamp ext
    by (simp add: wheel_def zoomState_def toNumber_def newDate_def Let_def)
qed

text \<open>
  The older script at the same state: \<open>zoomBy(0.8)\<close> sets the domain it already has and
  runs the simulation again.
\<close>

lemma zoomBy_app_full_extent_example:
  "zoomBy_app exLoaded (Some 0.8) None = Some (Some 0, Some 8640000000)"
  unfolding exLoaded_eq zoomBy_app_def zoomWindow_app_def
  by (simp add: exRows_def exRow_def toNumber_def newDate_def trunc_def jsGt_def)

text \<open>
  Claim C9, on the example chart at its full extent, day 0 to day 100: \<open>zoomBy(0.8)\<close> does
  not return early, in neither script. It calls for a redraw of the domain it already
  has, with a repack. The wheel handler of the script with the clamped domain, asked to
  zoom out in the same state, returns without a redraw.
\<close>

theorem zoomBy_full_extent_redraws:
  "currentXScale exLoaded = Some (Some 0, Some 8640000000) \<and>
   FULL_EXTENT exLoaded = Some (DateObj (Some 0), DateObj (Some 8640000000)) \<and>
   zoomBy exLoaded (Some 0.8) None = Some (Some 0, Some 8640000000, True) \<and>
   zoomBy_app exLoaded (Some 0.8) None = Some (Some 0, Some 8640000000) \<and>
   wheel parse exInvert exLoaded 0 100 = None"
proof -
  have st: "zoomState exLoaded 0 8640000000 0 8640000000"
    by (simp add: zoomState_def exLoaded_eq exRows_def)
  have M: "MIN_SPAN_MS \<le> real_of_int (8640000000 - 0)" by (simp add: MIN_SPAN_MS_def)
  have anchor: "exInvert (Some 0, Some 8640000000) 0 = Some 0"
    by (simp add: exInvert_def toNumber_def newDate_def trunc_def)
  show ?thesis
    using zoomBy_full_extent [OF st M]
      wheel_full_extent [where invert = exInvert and mouseX = 0 and deltaY = 100
        and parse = parse, OF st M anchor] st zoomBy_app_full_extent_example
    by (simp add: zoomState_def)
qed

end
